theory Spec2Isabelle
  imports Complex_Main
begin

section \<open>Python values, errors and the outside world\<close>

text \<open>
  The program is \<^verbatim>\<open>python/summarize_sgfs.py\<close>: the class \<^verbatim>\<open>GameResultSummary\<close>
  reads game files, folds each game into a dictionary keyed by the ordered pair
  (black player, white player), and prints a win matrix.

  Every exception the code can raise is a value of \<open>error\<close>. A method that mutates
  \<^verbatim>\<open>self\<close> is a function from the object to a pair: the exception raised (if any) and
  the object as the method left it, because a mutation made before a raise stays.
  \<open>OSError\<close> stands for all its subclasses (\<^verbatim>\<open>NotADirectoryError\<close>,
  \<^verbatim>\<open>IsADirectoryError\<close>, \<^verbatim>\<open>PermissionError\<close>).
\<close>

datatype error = KeyError | ValueError | TypeError | ZeroDivisionError | OSError | AssertionError

text \<open>
  \<^verbatim>\<open>@dataclass class Record: win: int = 0; lost: int = 0; draw: int = 0\<close>.
  Python integers are unbounded.
\<close>

record Record =
  win :: int
  lost :: int
  draw :: int

text \<open>
  A parsed game, as far as the code reads it: \<^verbatim>\<open>get_winner()\<close> is \<^verbatim>\<open>'b'\<close>,
  \<^verbatim>\<open>'w'\<close> or \<^verbatim>\<open>None\<close>; \<^verbatim>\<open>get_player_name(colour)\<close> is a string or
  \<^verbatim>\<open>None\<close>; \<^verbatim>\<open>get_handicap()\<close> is an integer or \<^verbatim>\<open>None\<close>;
  \<^verbatim>\<open>get_komi()\<close> is a finite float, taken here as the rational it denotes
  (the code only compares it with 5.5 and 7.5, which floats represent exactly).
\<close>

record Sgf_game =
  get_winner :: "char option"
  get_player_name :: "char \<Rightarrow> string option"
  get_handicap :: "int option"
  get_komi :: rat

type_synonym player = "string option"

text \<open>
  What the code calls and does not define: the file system (\<^verbatim>\<open>os\<close>, \<^verbatim>\<open>open\<close>),
  the parser (\<^verbatim>\<open>sgfmill.sgf.Sgf_game.from_bytes\<close>) and the order in which Python
  iterates over a set. They are parameters. \<open>from_bytes\<close> returning \<open>Inl e\<close> stands
  for \<^verbatim>\<open>from_bytes\<close> or any of the five accessor calls of
  \<^verbatim>\<open>_add_a_single_sgf_string\<close> raising \<open>e\<close>: all of them run before the first
  assignment to \<^verbatim>\<open>self\<close>, so which one raised makes no difference to the object.
  The file system is the same for all calls of one run.
\<close>

record pyenv =
  os_path_exists :: "string \<Rightarrow> bool"
  os_path_isfile :: "string \<Rightarrow> bool"
  os_listdir :: "string \<Rightarrow> error + string list"
  os_walk :: "string \<Rightarrow> (string \<times> string list \<times> string list) list"
  open_rb :: "string \<Rightarrow> error + string"
  from_bytes :: "string \<Rightarrow> error + Sgf_game"
  set_iter :: "string set \<Rightarrow> string list"
  names_iter :: "player set \<Rightarrow> player list"

text \<open>
  The object. \<open>results\<close> is the dictionary \<^verbatim>\<open>{(black, white): Record}\<close>; the four
  file sets and the flag are the private attributes of the same names; \<open>stdout\<close> is
  what \<^verbatim>\<open>print\<close> has written so far, one entry per call.
\<close>

record GameResultSummary =
  results :: "(player \<times> player) \<rightharpoonup> Record"
  all_sgfs_files :: "string set"
  all_sgf_files :: "string set"
  new_sgfs_files :: "string set"
  new_sgf_files :: "string set"
  warning :: bool
  elo_prior :: rat
  stdout :: "string list"

definition py_print :: "string \<Rightarrow> GameResultSummary \<Rightarrow> GameResultSummary" where
  "py_print line self = self\<lparr>stdout := stdout self @ [line]\<rparr>"

text \<open>\<^verbatim>\<open>str(n)\<close> for a natural number.\<close>

definition digit_char :: "nat \<Rightarrow> char" where
  "digit_char d = ''0123456789'' ! d"

fun str_nat :: "nat \<Rightarrow> string" where
  "str_nat n = (if n < 10 then [digit_char n] else str_nat (n div 10) @ [digit_char (n mod 10)])"

declare str_nat.simps [simp del]

text \<open>
  \<^verbatim>\<open>s.lower()\<close> on the letters that matter for the comparison with \<^verbatim>\<open>"sgf"\<close> and
  \<^verbatim>\<open>"sgfs"\<close> (the ASCII capitals), and \<^verbatim>\<open>s.split(".")[-1]\<close>: what follows the last
  dot, or the whole string when it has none.
\<close>

definition lower_char :: "char \<Rightarrow> char" where
  "lower_char c =
     (case map_of (zip ''ABCDEFGHIJKLMNOPQRSTUVWXYZ'' ''abcdefghijklmnopqrstuvwxyz'') c of
        None \<Rightarrow> c | Some d \<Rightarrow> d)"

definition lower :: "string \<Rightarrow> string" where
  "lower s = map lower_char s"

definition split_last :: "string \<Rightarrow> string" where
  "split_last s = rev (takeWhile (\<lambda>c. c \<noteq> CHR ''.'') (rev s))"

text \<open>\<^verbatim>\<open>os.path.join(a, b)\<close> of \<^verbatim>\<open>posixpath\<close>, for two components.\<close>

definition os_path_join :: "string \<Rightarrow> string \<Rightarrow> string" where
  "os_path_join a b =
     (if b \<noteq> [] \<and> hd b = CHR ''/'' then b
      else if a = [] \<or> last a = CHR ''/'' then a @ b
      else a @ ''/'' @ b)"

text \<open>
  \<^verbatim>\<open>f.readlines()\<close> of a file opened in binary mode: the content cut after every
  newline byte, the newline kept.
\<close>

fun readlines_from :: "string \<Rightarrow> string \<Rightarrow> string list" where
  "readlines_from cur [] = (if cur = [] then [] else [cur])"
| "readlines_from cur (c # cs) =
     (if c = CHR 0x0A then (cur @ [c]) # readlines_from [] cs
      else readlines_from (cur @ [c]) cs)"

definition readlines :: "string \<Rightarrow> string list" where
  "readlines content = readlines_from [] content"

text \<open>\<^verbatim>\<open>d[k]\<close>: a missing key raises \<^verbatim>\<open>KeyError\<close>.\<close>

definition getitem :: "('k \<rightharpoonup> 'v) \<Rightarrow> 'k \<Rightarrow> error + 'v" where
  "getitem d k = (case d k of None \<Rightarrow> Inl KeyError | Some v \<Rightarrow> Inr v)"

section \<open>Construction and clear\<close>

definition init :: "rat \<Rightarrow> GameResultSummary" where
  "init prior =
     \<lparr>results = Map.empty, all_sgfs_files = {}, all_sgf_files = {},
      new_sgfs_files = {}, new_sgf_files = {}, warning = False,
      elo_prior = prior, stdout = []\<rparr>"

definition clear :: "GameResultSummary \<Rightarrow> GameResultSummary" where
  "clear self =
     self\<lparr>results := Map.empty, all_sgfs_files := {}, all_sgf_files := {},
          new_sgfs_files := {}, new_sgf_files := {}, warning := False\<rparr>"

section \<open>Folding one game\<close>

text \<open>
  \<^verbatim>\<open>_add_a_single_sgf_string\<close> (lines 198 to 215): parse, set the warning, create the
  record of the pair when the key is new, add one to one of its three counters.
\<close>

definition add_a_single_sgf_string ::
  "pyenv \<Rightarrow> string \<Rightarrow> GameResultSummary \<Rightarrow> error option \<times> GameResultSummary" where
  "add_a_single_sgf_string env sgf_string self =
     (case from_bytes env sgf_string of
        Inl e \<Rightarrow> (Some e, self)
      | Inr game \<Rightarrow>
          let winner = get_winner game;
              pla_black = get_player_name game (CHR ''b'');
              pla_white = get_player_name game (CHR ''w'');
              self1 = (if get_handicap game \<noteq> None \<or> get_komi game < 5.5 \<or> get_komi game > 7.5
                       then self\<lparr>warning := True\<rparr> else self);
              self2 = (if (pla_black, pla_white) \<notin> dom (results self1)
                       then self1\<lparr>results := (results self1)((pla_black, pla_white) \<mapsto>
                              \<lparr>win = 0, lost = 0, draw = 0\<rparr>)\<rparr>
                       else self1)
          in case getitem (results self2) (pla_black, pla_white) of
               Inl e \<Rightarrow> (Some e, self2)
             | Inr r \<Rightarrow>
                 (None,
                  self2\<lparr>results := (results self2)((pla_black, pla_white) \<mapsto>
                    (if winner = Some (CHR ''b'') then r\<lparr>win := win r + 1\<rparr>
                     else if winner = Some (CHR ''w'') then r\<lparr>lost := lost r + 1\<rparr>
                     else r\<lparr>draw := draw r + 1\<rparr>))\<rparr>))"

section \<open>Reading files\<close>

text \<open>The loop \<^verbatim>\<open>for sgf in sgfs_strings: self._add_a_single_sgf_string(sgf)\<close>.\<close>

fun add_sgf_strings ::
  "pyenv \<Rightarrow> string list \<Rightarrow> GameResultSummary \<Rightarrow> error option \<times> GameResultSummary" where
  "add_sgf_strings env [] self = (None, self)"
| "add_sgf_strings env (sgf # rest) self =
     (case add_a_single_sgf_string env sgf self of
        (Some e, self') \<Rightarrow> (Some e, self')
      | (None, self') \<Rightarrow> add_sgf_strings env rest self')"

definition add_one_sgfs_file_to_result ::
  "pyenv \<Rightarrow> string \<Rightarrow> GameResultSummary \<Rightarrow> error option \<times> GameResultSummary" where
  "add_one_sgfs_file_to_result env sgfs_file_name self =
     (if \<not> os_path_exists env sgfs_file_name
      then (None, py_print (''There is no SGFs file as '' @ sgfs_file_name) self)
      else case open_rb env sgfs_file_name of
             Inl e \<Rightarrow> (Some e, self)
           | Inr content \<Rightarrow> add_sgf_strings env (readlines content) self)"

definition add_one_sgf_file_to_result ::
  "pyenv \<Rightarrow> string \<Rightarrow> GameResultSummary \<Rightarrow> error option \<times> GameResultSummary" where
  "add_one_sgf_file_to_result env sgf_file_name self =
     (if \<not> os_path_exists env sgf_file_name
      then (None, py_print (''There is no SGF file as '' @ sgf_file_name) self)
      else case open_rb env sgf_file_name of
             Inl e \<Rightarrow> (Some e, self)
           | Inr sgf \<Rightarrow> add_a_single_sgf_string env sgf self)"

text \<open>
  The two loops of \<^verbatim>\<open>_add_new_games_to_result_dict\<close>, with their counter \<^verbatim>\<open>idx\<close>
  and the progress line printed after every tenth file. \<open>n\<close> is
  \<^verbatim>\<open>len(self._new_sgfs_files)\<close> (or of the sgf set), which the loop does not change.
\<close>

fun sgfs_files_loop ::
  "pyenv \<Rightarrow> nat \<Rightarrow> nat \<Rightarrow> string list \<Rightarrow> GameResultSummary \<Rightarrow> error option \<times> GameResultSummary" where
  "sgfs_files_loop env n idx [] self = (None, self)"
| "sgfs_files_loop env n idx (sgfs # rest) self =
     (case add_one_sgfs_file_to_result env sgfs self of
        (Some e, self') \<Rightarrow> (Some e, self')
      | (None, self') \<Rightarrow>
          sgfs_files_loop env n (idx + 1) rest
            (if idx mod 10 = 0
             then py_print (''Addedd '' @ str_nat idx @ '' files out of '' @ str_nat n @ '' sgfs files.'') self'
             else self'))"

fun sgf_files_loop ::
  "pyenv \<Rightarrow> nat \<Rightarrow> nat \<Rightarrow> string list \<Rightarrow> GameResultSummary \<Rightarrow> error option \<times> GameResultSummary" where
  "sgf_files_loop env n idx [] self = (None, self)"
| "sgf_files_loop env n idx (sgf # rest) self =
     (case add_one_sgf_file_to_result env sgf self of
        (Some e, self') \<Rightarrow> (Some e, self')
      | (None, self') \<Rightarrow>
          sgf_files_loop env n (idx + 1) rest
            (if idx mod 10 = 0
             then py_print (''Added '' @ str_nat idx @ '' files out of '' @ str_nat n @ '' sgf files.'') self'
             else self'))"

definition add_new_games_to_result_dict ::
  "pyenv \<Rightarrow> GameResultSummary \<Rightarrow> error option \<times> GameResultSummary" where
  "add_new_games_to_result_dict env self =
     (case sgfs_files_loop env (card (new_sgfs_files self)) 1
             (set_iter env (new_sgfs_files self)) self of
        (Some e, self1) \<Rightarrow> (Some e, self1)
      | (None, self1) \<Rightarrow>
          let self2 = py_print (''We have added additional '' @ str_nat (card (new_sgfs_files self1))
                        @ '' sgfs files into the results.'') self1
          in case sgf_files_loop env (card (new_sgf_files self2)) 1
                    (set_iter env (new_sgf_files self2)) self2 of
               (Some e, self3) \<Rightarrow> (Some e, self3)
             | (None, self3) \<Rightarrow>
                 (None, py_print (''We have added additional '' @ str_nat (card (new_sgf_files self3))
                          @ '' sgf files into the results.'') self3))"

section \<open>Tracking file names\<close>

text \<open>
  \<^verbatim>\<open>_add_game_file_names\<close> (lines 111 to 133). A missing directory prints a line and
  returns; nothing else is assigned, the two sets of new files included.
\<close>

definition add_game_file_names ::
  "pyenv \<Rightarrow> string \<Rightarrow> bool \<Rightarrow> GameResultSummary \<Rightarrow> error option \<times> GameResultSummary" where
  "add_game_file_names env input_file_dir search_subdir self =
     (if \<not> os_path_exists env input_file_dir
      then (None, py_print (''There is no directory under name '' @ input_file_dir) self)
      else
        case (if search_subdir
              then Inr (concat (map (\<lambda>(dirpath, dirnames, filenames).
                          map (os_path_join dirpath) filenames) (os_walk env input_file_dir)))
              else case os_listdir env input_file_dir of
                     Inl e \<Rightarrow> Inl e
                   | Inr names \<Rightarrow> Inr (map (os_path_join input_file_dir) names)) of
          Inl e \<Rightarrow> (Some e, self)
        | Inr files \<Rightarrow>
            let found_sgfs = set (filter (\<lambda>file. lower (split_last file) = ''sgfs'') files);
                found_sgf = set (filter (\<lambda>file. lower (split_last file) = ''sgf'') files);
                self1 = self\<lparr>new_sgfs_files := found_sgfs - all_sgfs_files self\<rparr>;
                self2 = self1\<lparr>new_sgf_files := found_sgf - all_sgf_files self1\<rparr>;
                self3 = self2\<lparr>all_sgfs_files := all_sgfs_files self2 \<union> found_sgfs\<rparr>;
                self4 = self3\<lparr>all_sgf_files := all_sgf_files self3 \<union> found_sgf\<rparr>
            in (None,
                py_print (''We found '' @ str_nat (card (new_sgfs_files self4))
                  @ '' new sgfs files and '' @ str_nat (card (new_sgf_files self4))
                  @ '' new sgf files in the search directory '' @ input_file_dir @ ''.'') self4))"

text \<open>
  \<^verbatim>\<open>_add_a_game_file_name\<close> (lines 135 to 155). Each of the three early returns
  leaves the set of new files of the other kind as the previous call left it.
\<close>

definition add_a_game_file_name ::
  "pyenv \<Rightarrow> string \<Rightarrow> GameResultSummary \<Rightarrow> GameResultSummary" where
  "add_a_game_file_name env input_file_name self =
     (if \<not> os_path_isfile env input_file_name
      then py_print (''There is no file with name '' @ input_file_name @ ''.'') self
      else if lower (split_last input_file_name) = ''sgf''
      then
        let self1 = self\<lparr>new_sgf_files := {input_file_name} - all_sgf_files self\<rparr>
        in if card (new_sgf_files self1) = 0
           then py_print (''File name '' @ input_file_name @ '' has been added before'') self1
           else self1\<lparr>all_sgf_files := all_sgf_files self1 \<union> {input_file_name}\<rparr>
      else if lower (split_last input_file_name) = ''sgfs''
      then
        let self1 = self\<lparr>new_sgfs_files := {input_file_name} - all_sgfs_files self\<rparr>
        in if card (new_sgfs_files self1) = 0
           then py_print (''File name '' @ input_file_name @ '' has been added before'') self1
           else self1\<lparr>all_sgfs_files := all_sgfs_files self1 \<union> {input_file_name}\<rparr>
      else py_print (input_file_name @ '' is not sgf or sgfs file, no game was added'') self)"

section \<open>The public methods\<close>

definition add_games ::
  "pyenv \<Rightarrow> string \<Rightarrow> bool \<Rightarrow> GameResultSummary \<Rightarrow> error option \<times> GameResultSummary" where
  "add_games env input_file_dir search_subdir self =
     (case add_game_file_names env input_file_dir search_subdir self of
        (Some e, self') \<Rightarrow> (Some e, self')
      | (None, self') \<Rightarrow> add_new_games_to_result_dict env self')"

definition add_a_game_file ::
  "pyenv \<Rightarrow> string \<Rightarrow> GameResultSummary \<Rightarrow> error option \<times> GameResultSummary" where
  "add_a_game_file env input_file_name self =
     add_new_games_to_result_dict env (add_a_game_file_name env input_file_name self)"

definition get_game_results :: "GameResultSummary \<Rightarrow> (player \<times> player) \<rightharpoonup> Record" where
  "get_game_results self = results self"

section \<open>The win matrix\<close>

text \<open>
  \<^verbatim>\<open>set(itertools.chain(*(name_pair for name_pair in self.results.keys())))\<close>:
  every name on either side of a key.
\<close>

definition pla_names :: "((player \<times> player) \<rightharpoonup> Record) \<Rightarrow> player set" where
  "pla_names res = fst ` dom res \<union> snd ` dom res"

text \<open>
  An entry of the matrix is the integer \<^verbatim>\<open>0\<close> on the diagonal and a float elsewhere
  (\<^verbatim>\<open>int + int + 0.5 * int\<close>). The float is taken as the rational it denotes, which
  is exact while the counts stay below \<open>2^52\<close>.
\<close>

datatype pynum = PyInt int | PyFloat rat

fun num_val :: "pynum \<Rightarrow> rat" where
  "num_val (PyInt i) = of_int i"
| "num_val (PyFloat q) = q"

text \<open>A comprehension or loop whose body can raise: the first raise ends it.\<close>

fun collect :: "('a \<Rightarrow> error + 'b) \<Rightarrow> 'a list \<Rightarrow> error + 'b list" where
  "collect f [] = Inr []"
| "collect f (x # xs) =
     (case f x of
        Inl e \<Rightarrow> Inl e
      | Inr y \<Rightarrow> (case collect f xs of Inl e \<Rightarrow> Inl e | Inr ys \<Rightarrow> Inr (y # ys)))"

text \<open>The body of the inner loop of \<^verbatim>\<open>_build_result_matrix\<close> (lines 260 to 267).\<close>

definition matrix_entry ::
  "((player \<times> player) \<rightharpoonup> Record) \<Rightarrow> player \<Rightarrow> player \<Rightarrow> error + pynum" where
  "matrix_entry res pla1 pla2 =
     (if pla1 = pla2 then Inr (PyInt 0)
      else case getitem res (pla1, pla2) of
             Inl e \<Rightarrow> Inl e
           | Inr pla1_pla2 \<Rightarrow>
               (case getitem res (pla2, pla1) of
                  Inl e \<Rightarrow> Inl e
                | Inr pla2_pla1 \<Rightarrow>
                    Inr (PyFloat (of_int (win pla1_pla2 + lost pla2_pla1)
                           + 0.5 * of_int (draw pla1_pla2 + draw pla2_pla1)))))"

definition build_result_matrix :: "pyenv \<Rightarrow> GameResultSummary \<Rightarrow> error + pynum list list" where
  "build_result_matrix env self =
     (let names = names_iter env (pla_names (results self))
      in collect (\<lambda>pla1. collect (\<lambda>pla2. matrix_entry (results self) pla1 pla2) names) names)"

section \<open>Printing the results\<close>

definition ljust :: "nat \<Rightarrow> string \<Rightarrow> string" where
  "ljust w s = s @ replicate (w - length s) (CHR '' '')"

definition rjust :: "nat \<Rightarrow> string \<Rightarrow> string" where
  "rjust w s = replicate (w - length s) (CHR '' '') @ s"

definition str_int :: "int \<Rightarrow> string" where
  "str_int i = (if i < 0 then ''-'' @ str_nat (nat (- i)) else str_nat (nat i))"

text \<open>
  \<^verbatim>\<open>str\<close> of a float that is a whole number or a whole number and a half (the only
  floats the matrix holds), below \<open>10^16\<close>.
\<close>

definition str_float :: "rat \<Rightarrow> string" where
  "str_float q =
     (if q < 0 then ''-'' else []) @ str_nat (nat \<lfloor>\<bar>q\<bar>\<rfloor>)
       @ (if \<bar>q\<bar> = of_int \<lfloor>\<bar>q\<bar>\<rfloor> then ''.0'' else ''.5'')"

fun str_num :: "pynum \<Rightarrow> string" where
  "str_num (PyInt i) = str_int i"
| "str_num (PyFloat q) = str_float q"

text \<open>
  \<^verbatim>\<open>max(xs)\<close>: \<^verbatim>\<open>ValueError\<close> on an empty sequence, else the first of the greatest
  elements.
\<close>

fun max_from :: "pynum \<Rightarrow> pynum list \<Rightarrow> pynum" where
  "max_from m [] = m"
| "max_from m (x # xs) = max_from (if num_val x > num_val m then x else m) xs"

definition py_max :: "pynum list \<Rightarrow> error + pynum" where
  "py_max xs = (case xs of [] \<Rightarrow> Inl ValueError | x # rest \<Rightarrow> Inr (max_from x rest))"

text \<open>
  \<^verbatim>\<open>int(math.log10(x))\<close>: \<^verbatim>\<open>ValueError\<close> (math domain error) unless \<open>x > 0\<close>; otherwise
  the logarithm truncated towards zero, computed on the decimal digits.
\<close>

fun ilog10 :: "nat \<Rightarrow> nat" where
  "ilog10 n = (if n < 10 then 0 else 1 + ilog10 (n div 10))"

declare ilog10.simps [simp del]

definition int_log10 :: "rat \<Rightarrow> error + int" where
  "int_log10 x =
     (if x \<le> 0 then Inl ValueError
      else if 1 \<le> x then Inr (int (ilog10 (nat \<lfloor>x\<rfloor>)))
      else Inr (- int (ilog10 (nat \<lfloor>1 / x\<rfloor>))))"

text \<open>
  \<^verbatim>\<open>_print_player_info\<close> (lines 235 to 244). \<^verbatim>\<open>max(pla_names, key=len)\<close> raises
  \<^verbatim>\<open>ValueError\<close> on the empty set and \<^verbatim>\<open>TypeError\<close> when a name is \<^verbatim>\<open>None\<close>.
  The length of a name is counted in characters of the model.
\<close>

fun player_lines :: "nat \<Rightarrow> nat \<Rightarrow> string list \<Rightarrow> GameResultSummary \<Rightarrow> GameResultSummary" where
  "player_lines title_space idx [] self = self"
| "player_lines title_space idx (pla # rest) self =
     player_lines title_space (idx + 1) rest
       (py_print (ljust title_space pla @ '': '' @ str_nat idx) self)"

definition print_player_info ::
  "pyenv \<Rightarrow> GameResultSummary \<Rightarrow> error option \<times> GameResultSummary" where
  "print_player_info env self =
     (let names = names_iter env (pla_names (results self))
      in if names = [] then (Some ValueError, self)
         else if None \<in> set names then (Some TypeError, self)
         else
           let max_len = Max (set (map (\<lambda>pla. length (the pla)) names));
               title = ''Player Name'';
               title_space = max (length title) max_len + 1
           in (None,
               player_lines title_space 0 (map the names)
                 (py_print (ljust title_space title @ '': Player ID'') self)))"

text \<open>\<^verbatim>\<open>_print_result_matrix\<close> (lines 246 to 252).\<close>

fun matrix_lines :: "nat \<Rightarrow> nat \<Rightarrow> pynum list list \<Rightarrow> GameResultSummary \<Rightarrow> GameResultSummary" where
  "matrix_lines w playerID [] self = self"
| "matrix_lines w playerID (row # rest) self =
     matrix_lines w (playerID + 1) rest
       (py_print (concat (map (rjust w) (str_nat playerID # map str_num row))) self)"

definition print_result_matrix ::
  "pyenv \<Rightarrow> GameResultSummary \<Rightarrow> error option \<times> GameResultSummary" where
  "print_result_matrix env self =
     (case build_result_matrix env self of
        Inl e \<Rightarrow> (Some e, self)
      | Inr results_matrix \<Rightarrow>
          (case collect py_max results_matrix of
             Inl e \<Rightarrow> (Some e, self)
           | Inr maxes \<Rightarrow>
               (case py_max maxes of
                  Inl e \<Rightarrow> (Some e, self)
                | Inr m \<Rightarrow>
                    (case int_log10 (num_val m) of
                       Inl e \<Rightarrow> (Some e, self)
                     | Inr l \<Rightarrow>
                         let max_game_played_space = l + 5
                         in if max_game_played_space < 0 then (Some ValueError, self)
                            else
                              let w = nat max_game_played_space
                              in (None,
                                  matrix_lines w 0 results_matrix
                                    (py_print (concat (map (rjust w)
                                       ([] # map str_nat [0 ..< length results_matrix]))) self))))))"

definition print_game_results ::
  "pyenv \<Rightarrow> GameResultSummary \<Rightarrow> error option \<times> GameResultSummary" where
  "print_game_results env self =
     (case print_player_info env (py_print ''Player information:'' self) of
        (Some e, self') \<Rightarrow> (Some e, self')
      | (None, self') \<Rightarrow> print_result_matrix env (py_print ''Game Results by Player ID:'' self'))"

section \<open>Preparing the rating estimate\<close>

text \<open>
  The module \<^verbatim>\<open>elo\<close> is not part of this file; its three functions are parameters,
  and each may raise (they assert their arguments). \<open>'d\<close> is the type of one
  likelihood term, \<open>'i\<close> of the result \<^verbatim>\<open>elo.EloInfo\<close>.
\<close>

record ('d, 'i) elo_module =
  likelihood_of_games :: "player \<Rightarrow> player \<Rightarrow> int \<Rightarrow> rat \<Rightarrow> bool \<Rightarrow> error + 'd list"
  make_center_elos_prior :: "player list \<Rightarrow> rat \<Rightarrow> error + 'd list"
  compute_elos :: "'d list \<Rightarrow> error + 'i"

text \<open>
  The body of the inner loop of \<^verbatim>\<open>_estimate_elo\<close> (lines 223 to 230): what one
  ordered pair adds to \<^verbatim>\<open>data\<close>. \<^verbatim>\<open>win / total\<close> is a float division.
\<close>

definition elo_pair ::
  "('d, 'i) elo_module \<Rightarrow> ((player \<times> player) \<rightharpoonup> Record) \<Rightarrow> player \<Rightarrow> player \<Rightarrow> error + 'd list" where
  "elo_pair elo res pla_Balck pla_White =
     (if pla_Balck = pla_White then Inr []
      else case getitem res (pla_Balck, pla_White) of
             Inl e \<Rightarrow> Inl e
           | Inr record \<Rightarrow>
               let total = win record + lost record + draw record;
                   won = of_int (win record) + 0.5 * of_int (draw record)
               in if total = 0 then Inl ZeroDivisionError
                  else likelihood_of_games elo pla_Balck pla_White total (won / of_int total) False)"

definition estimate_elo ::
  "('d, 'i) elo_module \<Rightarrow> pyenv \<Rightarrow> GameResultSummary \<Rightarrow> error + 'i" where
  "estimate_elo elo env self =
     (let names = names_iter env (pla_names (results self))
      in case collect (\<lambda>pla_Balck.
                collect (\<lambda>pla_White. elo_pair elo (results self) pla_Balck pla_White) names) names of
           Inl e \<Rightarrow> Inl e
         | Inr data \<Rightarrow>
             (case make_center_elos_prior elo names (elo_prior self) of
                Inl e \<Rightarrow> Inl e
              | Inr centre \<Rightarrow> compute_elos elo (concat (concat data) @ centre)))"

section \<open>A small world to run the code in\<close>

text \<open>
  Concrete inputs for the evaluations below. A record is recognised by its first byte:
  \<open>A\<close> Alice (black) beats Bob; \<open>B\<close> Bob (black) beats Alice; \<open>D\<close> a draw, Alice
  black, Bob white, komi 6.5; \<open>K\<close> komi 5.0; \<open>L\<close> komi 5.5; \<open>U\<close> komi 7.5;
  \<open>H\<close> a handicap game; \<open>S\<close> Alice against herself. Anything else does not parse.
  The directory \<open>d\<close> holds \<open>a.sgf\<close> (one game) and \<open>b.sgfs\<close> (two games); the batch
  file \<open>e.sgfs\<close> has an unparseable second line; nothing is called \<open>missing\<close>.
\<close>

definition mk_game ::
  "char option \<Rightarrow> string option \<Rightarrow> string option \<Rightarrow> int option \<Rightarrow> rat \<Rightarrow> Sgf_game" where
  "mk_game w pb pw h k =
     \<lparr>get_winner = w, get_player_name = (\<lambda>c. if c = CHR ''b'' then pb else pw),
      get_handicap = h, get_komi = k\<rparr>"

definition fixture_from_bytes :: "string \<Rightarrow> error + Sgf_game" where
  "fixture_from_bytes s =
     (case s of
        [] \<Rightarrow> Inl ValueError
      | c # _ \<Rightarrow>
          if c = CHR ''A'' then Inr (mk_game (Some (CHR ''b'')) (Some ''Alice'') (Some ''Bob'') None 7)
          else if c = CHR ''B'' then Inr (mk_game (Some (CHR ''b'')) (Some ''Bob'') (Some ''Alice'') None 7)
          else if c = CHR ''D'' then Inr (mk_game None (Some ''Alice'') (Some ''Bob'') None 6.5)
          else if c = CHR ''K'' then Inr (mk_game (Some (CHR ''w'')) (Some ''Alice'') (Some ''Bob'') None 5)
          else if c = CHR ''L'' then Inr (mk_game (Some (CHR ''w'')) (Some ''Alice'') (Some ''Bob'') None 5.5)
          else if c = CHR ''U'' then Inr (mk_game (Some (CHR ''b'')) (Some ''Alice'') (Some ''Bob'') None 7.5)
          else if c = CHR ''H'' then Inr (mk_game (Some (CHR ''b'')) (Some ''Alice'') (Some ''Bob'') (Some 2) 6.5)
          else if c = CHR ''S'' then Inr (mk_game (Some (CHR ''b'')) (Some ''Alice'') (Some ''Alice'') None 7)
          else Inl ValueError)"

definition fixture_env :: pyenv where
  "fixture_env =
     \<lparr>os_path_exists = (\<lambda>p. p \<in> set [''d'', ''d/a.sgf'', ''d/b.sgfs'', ''e.sgfs'']),
      os_path_isfile = (\<lambda>p. p \<in> set [''d/a.sgf'', ''d/b.sgfs'', ''e.sgfs'']),
      os_listdir = (\<lambda>p. if p = ''d'' then Inr [''a.sgf'', ''b.sgfs''] else Inl OSError),
      os_walk = (\<lambda>p. if p = ''d'' then [(''d'', [], [''a.sgf'', ''b.sgfs''])] else []),
      open_rb = (\<lambda>p. if p = ''d/a.sgf'' then Inr ''A''
                      else if p = ''d/b.sgfs'' then Inr ''B\<newline>D\<newline>''
                      else if p = ''e.sgfs'' then Inr ''A\<newline>X\<newline>B\<newline>''
                      else Inl OSError),
      from_bytes = fixture_from_bytes,
      set_iter = (\<lambda>S. filter (\<lambda>p. p \<in> S) [''d/a.sgf'', ''d/b.sgfs'', ''e.sgfs'']),
      names_iter = (\<lambda>S. filter (\<lambda>p. p \<in> S) [Some ''Alice'', Some ''Bob'', Some ''Carol'', None])\<rparr>"

definition fixture_elo :: "(player \<times> player \<times> int \<times> rat, nat) elo_module" where
  "fixture_elo =
     \<lparr>likelihood_of_games = (\<lambda>p q n r b. Inr [(p, q, n, r)]),
      make_center_elos_prior = (\<lambda>ps prior. Inr []),
      compute_elos = (\<lambda>data. Inr (length data))\<rparr>"

definition table_of :: "((player \<times> player) \<times> Record) list \<Rightarrow> GameResultSummary" where
  "table_of entries = (init 0)\<lparr>results := map_of entries\<rparr>"

section \<open>Measures used in the statements\<close>

text \<open>
  The number of games the table records for the ordered pair \<open>(p, q)\<close>: the sum of
  the three counters of its entry, and nothing when the pair is not a key.
\<close>

definition total_games :: "((player \<times> player) \<rightharpoonup> Record) \<Rightarrow> player \<Rightarrow> player \<Rightarrow> int" where
  "total_games res p q = (case res (p, q) of None \<Rightarrow> 0 | Some r \<Rightarrow> win r + lost r + draw r)"

text \<open>The sum of all counters of all entries of the table.\<close>

definition games_recorded :: "((player \<times> player) \<rightharpoonup> Record) \<Rightarrow> int" where
  "games_recorded res = (\<Sum>k \<in> dom res. total_games res (fst k) (snd k))"

text \<open>
  \<open>folds env n s s'\<close>: the object \<open>s'\<close> comes from \<open>s\<close> by exactly \<open>n\<close> successful
  calls of \<^verbatim>\<open>_add_a_single_sgf_string\<close>, with steps in between that leave the
  table as it is (prints, assignments to the file sets).
\<close>

inductive folds :: "pyenv \<Rightarrow> nat \<Rightarrow> GameResultSummary \<Rightarrow> GameResultSummary \<Rightarrow> bool"
  for env :: pyenv where
  folds_same: "results s' = results s \<Longrightarrow> folds env 0 s s'"
| folds_one: "from_bytes env sgf = Inr g \<Longrightarrow> folds env 1 s (snd (add_a_single_sgf_string env sgf s))"
| folds_trans: "folds env n s s' \<Longrightarrow> folds env m s' s'' \<Longrightarrow> folds env (n + m) s s''"

text \<open>
  A caller of the public methods: one call after the other on the same object, going
  on after a call that raised (as an interactive caller or one that catches would).
\<close>

datatype operation =
    Add_games string bool
  | Add_a_game_file string
  | Clear
  | Print_game_results

fun apply_operation :: "pyenv \<Rightarrow> operation \<Rightarrow> GameResultSummary \<Rightarrow> GameResultSummary" where
  "apply_operation env (Add_games input_file_dir search_subdir) self =
     snd (add_games env input_file_dir search_subdir self)"
| "apply_operation env (Add_a_game_file input_file_name) self =
     snd (add_a_game_file env input_file_name self)"
| "apply_operation env Clear self = clear self"
| "apply_operation env Print_game_results self = snd (print_game_results env self)"

fun run_operations :: "pyenv \<Rightarrow> operation list \<Rightarrow> GameResultSummary \<Rightarrow> GameResultSummary" where
  "run_operations env [] self = self"
| "run_operations env (operation # rest) self =
     run_operations env rest (apply_operation env operation self)"

section \<open>Facts about the ingestion methods\<close>

lemma getitem_Some: "d k = Some v \<Longrightarrow> getitem d k = Inr v"
  by (simp add: getitem_def)

lemma single_fail:
  "from_bytes env sgf = Inl e \<Longrightarrow> add_a_single_sgf_string env sgf self = (Some e, self)"
  by (simp add: add_a_single_sgf_string_def)

lemma single_ok:
  "from_bytes env sgf = Inr g \<Longrightarrow>
   add_a_single_sgf_string env sgf self =
     (None,
      self\<lparr>warning := (warning self \<or> get_handicap g \<noteq> None \<or> get_komi g < 5.5 \<or> get_komi g > 7.5),
           results := (results self)((get_player_name g (CHR ''b''), get_player_name g (CHR ''w'')) \<mapsto>
             (let r = (case results self (get_player_name g (CHR ''b''), get_player_name g (CHR ''w'')) of
                         None \<Rightarrow> \<lparr>win = 0, lost = 0, draw = 0\<rparr> | Some r \<Rightarrow> r)
              in if get_winner g = Some (CHR ''b'') then r\<lparr>win := win r + 1\<rparr>
                 else if get_winner g = Some (CHR ''w'') then r\<lparr>lost := lost r + 1\<rparr>
                 else r\<lparr>draw := draw r + 1\<rparr>))\<rparr>)"
  by (cases self) (auto simp add: add_a_single_sgf_string_def Let_def getitem_def domIff split: option.splits)

lemma py_print_fields [simp]:
  "results (py_print l s) = results s" "warning (py_print l s) = warning s"
  "new_sgfs_files (py_print l s) = new_sgfs_files s" "new_sgf_files (py_print l s) = new_sgf_files s"
  "all_sgfs_files (py_print l s) = all_sgfs_files s" "all_sgf_files (py_print l s) = all_sgf_files s"
  "elo_prior (py_print l s) = elo_prior s" "stdout (py_print l s) = stdout s @ [l]"
  by (simp_all add: py_print_def)

lemma chain_strings:
  assumes frame: "\<And>s s'. results s' = results s \<Longrightarrow> warning s' = warning s \<Longrightarrow> R s s'"
      and step: "\<And>s sgf. R s (snd (add_a_single_sgf_string env sgf s))"
      and trans: "\<And>s s' s''. R s s' \<Longrightarrow> R s' s'' \<Longrightarrow> R s s''"
  shows "R self (snd (add_sgf_strings env sgfs self))"
proof (induction sgfs arbitrary: self)
  case Nil
  show ?case by (simp add: frame)
next
  case (Cons sgf rest)
  obtain r s1 where one: "add_a_single_sgf_string env sgf self = (r, s1)"
    by (cases "add_a_single_sgf_string env sgf self")
  have first: "R self s1" using step [of self sgf] one by simp
  show ?case
  proof (cases r)
    case None
    with one have "snd (add_sgf_strings env (sgf # rest) self) = snd (add_sgf_strings env rest s1)"
      by simp
    with trans [OF first Cons.IH [of s1]] show ?thesis by simp
  next
    case (Some e)
    with one first show ?thesis by simp
  qed
qed

lemma chain_sgfs_file:
  assumes frame: "\<And>s s'. results s' = results s \<Longrightarrow> warning s' = warning s \<Longrightarrow> R s s'"
      and step: "\<And>s sgf. R s (snd (add_a_single_sgf_string env sgf s))"
      and trans: "\<And>s s' s''. R s s' \<Longrightarrow> R s' s'' \<Longrightarrow> R s s''"
  shows "R self (snd (add_one_sgfs_file_to_result env f self))"
  using chain_strings [of R env, OF frame step trans]
  by (auto simp add: add_one_sgfs_file_to_result_def frame split: sum.splits)

lemma chain_sgf_file:
  assumes frame: "\<And>s s'. results s' = results s \<Longrightarrow> warning s' = warning s \<Longrightarrow> R s s'"
      and step: "\<And>s sgf. R s (snd (add_a_single_sgf_string env sgf s))"
  shows "R self (snd (add_one_sgf_file_to_result env f self))"
  by (auto simp add: add_one_sgf_file_to_result_def frame step split: sum.splits)

lemma chain_sgfs_loop:
  assumes frame: "\<And>s s'. results s' = results s \<Longrightarrow> warning s' = warning s \<Longrightarrow> R s s'"
      and step: "\<And>s sgf. R s (snd (add_a_single_sgf_string env sgf s))"
      and trans: "\<And>s s' s''. R s s' \<Longrightarrow> R s' s'' \<Longrightarrow> R s s''"
  shows "R self (snd (sgfs_files_loop env n idx fs self))"
proof (induction fs arbitrary: self idx)
  case Nil
  show ?case by (simp add: frame)
next
  case (Cons f rest)
  obtain r s1 where one: "add_one_sgfs_file_to_result env f self = (r, s1)"
    by (cases "add_one_sgfs_file_to_result env f self")
  have first: "R self s1"
    using chain_sgfs_file [of R env self f, OF frame step trans] one by simp
  show ?case
  proof (cases r)
    case None
    let ?s2 = "if idx mod 10 = 0
      then py_print (''Addedd '' @ str_nat idx @ '' files out of '' @ str_nat n @ '' sgfs files.'') s1
      else s1"
    have "R s1 ?s2" by (rule frame) simp_all
    with first have "R self ?s2" by (rule trans)
    from trans [OF this Cons.IH [of ?s2 "idx + 1"]] one None show ?thesis by simp
  next
    case (Some e)
    with one first show ?thesis by simp
  qed
qed

lemma chain_sgf_loop:
  assumes frame: "\<And>s s'. results s' = results s \<Longrightarrow> warning s' = warning s \<Longrightarrow> R s s'"
      and step: "\<And>s sgf. R s (snd (add_a_single_sgf_string env sgf s))"
      and trans: "\<And>s s' s''. R s s' \<Longrightarrow> R s' s'' \<Longrightarrow> R s s''"
  shows "R self (snd (sgf_files_loop env n idx fs self))"
proof (induction fs arbitrary: self idx)
  case Nil
  show ?case by (simp add: frame)
next
  case (Cons f rest)
  obtain r s1 where one: "add_one_sgf_file_to_result env f self = (r, s1)"
    by (cases "add_one_sgf_file_to_result env f self")
  have first: "R self s1"
    using chain_sgf_file [of R env self f, OF frame step] one by simp
  show ?case
  proof (cases r)
    case None
    let ?s2 = "if idx mod 10 = 0
      then py_print (''Added '' @ str_nat idx @ '' files out of '' @ str_nat n @ '' sgf files.'') s1
      else s1"
    have "R s1 ?s2" by (rule frame) simp_all
    with first have "R self ?s2" by (rule trans)
    from trans [OF this Cons.IH [of ?s2 "idx + 1"]] one None show ?thesis by simp
  next
    case (Some e)
    with one first show ?thesis by simp
  qed
qed

lemma chain_new_games:
  assumes frame: "\<And>s s'. results s' = results s \<Longrightarrow> warning s' = warning s \<Longrightarrow> R s s'"
      and step: "\<And>s sgf. R s (snd (add_a_single_sgf_string env sgf s))"
      and trans: "\<And>s s' s''. R s s' \<Longrightarrow> R s' s'' \<Longrightarrow> R s s''"
  shows "R self (snd (add_new_games_to_result_dict env self))"
proof -
  let ?l1 = "sgfs_files_loop env (card (new_sgfs_files self)) 1 (set_iter env (new_sgfs_files self)) self"
  obtain r1 s1 where l1: "?l1 = (r1, s1)" by (cases ?l1)
  have a: "R self s1"
    using chain_sgfs_loop [of R env self "card (new_sgfs_files self)" 1 "set_iter env (new_sgfs_files self)",
      OF frame step trans] l1 by simp
  show ?thesis
  proof (cases r1)
    case (Some e)
    with l1 a show ?thesis by (simp add: add_new_games_to_result_dict_def)
  next
    case None
    let ?s2 = "py_print (''We have added additional '' @ str_nat (card (new_sgfs_files s1))
                        @ '' sgfs files into the results.'') s1"
    have b: "R self ?s2" by (rule trans [OF a]) (rule frame, simp_all)
    let ?l2 = "sgf_files_loop env (card (new_sgf_files ?s2)) 1 (set_iter env (new_sgf_files ?s2)) ?s2"
    obtain r2 s3 where l2: "?l2 = (r2, s3)" by (cases ?l2)
    have c: "R ?s2 s3"
      using chain_sgf_loop [of R env ?s2 "card (new_sgf_files ?s2)" 1 "set_iter env (new_sgf_files ?s2)",
        OF frame step trans] l2 by simp
    have d: "R self s3" by (rule trans [OF b c])
    show ?thesis
    proof (cases r2)
      case (Some e)
      with l1 l2 None d show ?thesis by (simp add: add_new_games_to_result_dict_def Let_def)
    next
      case None2: None
      let ?s4 = "py_print (''We have added additional '' @ str_nat (card (new_sgf_files s3))
                          @ '' sgf files into the results.'') s3"
      have "R self ?s4" by (rule trans [OF d]) (rule frame, simp_all)
      with l1 l2 None None2 show ?thesis by (simp add: add_new_games_to_result_dict_def Let_def)
    qed
  qed
qed

lemma file_names_frame:
  "results (snd (add_game_file_names env d b self)) = results self"
  "warning (snd (add_game_file_names env d b self)) = warning self"
  by (auto simp add: add_game_file_names_def Let_def split: sum.splits)

lemma file_name_frame:
  "results (add_a_game_file_name env f self) = results self"
  "warning (add_a_game_file_name env f self) = warning self"
  by (auto simp add: add_a_game_file_name_def Let_def)

lemma chain_add_games:
  assumes frame: "\<And>s s'. results s' = results s \<Longrightarrow> warning s' = warning s \<Longrightarrow> R s s'"
      and step: "\<And>s sgf. R s (snd (add_a_single_sgf_string env sgf s))"
      and trans: "\<And>s s' s''. R s s' \<Longrightarrow> R s' s'' \<Longrightarrow> R s s''"
  shows "R self (snd (add_games env d b self))"
proof -
  obtain r s1 where n: "add_game_file_names env d b self = (r, s1)"
    by (cases "add_game_file_names env d b self")
  have a: "R self s1" using file_names_frame [of env d b self] n by (auto intro: frame)
  show ?thesis
  proof (cases r)
    case (Some e)
    with n a show ?thesis by (simp add: add_games_def)
  next
    case None
    with n trans [OF a chain_new_games [of R env s1, OF frame step trans]]
    show ?thesis by (simp add: add_games_def)
  qed
qed

lemma chain_add_a_game_file:
  assumes frame: "\<And>s s'. results s' = results s \<Longrightarrow> warning s' = warning s \<Longrightarrow> R s s'"
      and step: "\<And>s sgf. R s (snd (add_a_single_sgf_string env sgf s))"
      and trans: "\<And>s s' s''. R s s' \<Longrightarrow> R s' s'' \<Longrightarrow> R s s''"
  shows "R self (snd (add_a_game_file env f self))"
proof -
  have a: "R self (add_a_game_file_name env f self)"
    by (rule frame) (simp_all add: file_name_frame)
  from trans [OF a chain_new_games [of R env "add_a_game_file_name env f self", OF frame step trans]]
  show ?thesis by (simp add: add_a_game_file_def)
qed

lemma player_lines_fields [simp]:
  "results (player_lines w idx ps s) = results s" "warning (player_lines w idx ps s) = warning s"
  by (induction ps arbitrary: idx s) simp_all

lemma matrix_lines_fields [simp]:
  "results (matrix_lines w idx rows s) = results s" "warning (matrix_lines w idx rows s) = warning s"
  by (induction rows arbitrary: idx s) simp_all

lemma print_player_info_frame:
  "results (snd (print_player_info env s)) = results s"
  "warning (snd (print_player_info env s)) = warning s"
  by (simp_all add: print_player_info_def Let_def)

lemma print_result_matrix_frame:
  "results (snd (print_result_matrix env s)) = results s"
  "warning (snd (print_result_matrix env s)) = warning s"
  by (simp_all add: print_result_matrix_def Let_def split: sum.splits)

lemma print_game_results_frame:
  "results (snd (print_game_results env s)) = results s"
  "warning (snd (print_game_results env s)) = warning s"
proof -
  obtain r s1 where p: "print_player_info env (py_print ''Player information:'' s) = (r, s1)"
    by (cases "print_player_info env (py_print ''Player information:'' s)")
  have a: "results s1 = results s" "warning s1 = warning s"
    using print_player_info_frame [of env "py_print ''Player information:'' s"] p by simp_all
  show "results (snd (print_game_results env s)) = results s"
    using p a print_result_matrix_frame [of env "py_print ''Game Results by Player ID:'' s1"]
    by (cases r) (simp_all add: print_game_results_def)
  show "warning (snd (print_game_results env s)) = warning s"
    using p a print_result_matrix_frame [of env "py_print ''Game Results by Player ID:'' s1"]
    by (cases r) (simp_all add: print_game_results_def)
qed

lemma single_warning:
  "warning s \<Longrightarrow> warning (snd (add_a_single_sgf_string env sgf s))"
  by (cases "from_bytes env sgf") (simp_all add: single_fail single_ok)

lemma strings_warning:
  "fst (add_sgf_strings env sgfs self) = None \<Longrightarrow>
   warning (snd (add_sgf_strings env sgfs self)) =
     (warning self \<or> (\<exists>s \<in> set sgfs. \<exists>g. from_bytes env s = Inr g \<and>
        (get_handicap g \<noteq> None \<or> get_komi g < 5.5 \<or> get_komi g > 7.5)))"
proof (induction sgfs arbitrary: self)
  case Nil
  show ?case by simp
next
  case (Cons sgf rest)
  show ?case
  proof (cases "from_bytes env sgf")
    case (Inl e)
    with Cons.prems show ?thesis by (simp add: single_fail)
  next
    case (Inr g)
    let ?s1 = "snd (add_a_single_sgf_string env sgf self)"
    have one: "add_a_single_sgf_string env sgf self = (None, ?s1)"
      using Inr by (simp add: single_ok)
    have w1: "warning ?s1 = (warning self \<or> get_handicap g \<noteq> None \<or> get_komi g < 5.5 \<or> get_komi g > 7.5)"
      using Inr by (simp add: single_ok)
    have rest: "add_sgf_strings env (sgf # rest) self = add_sgf_strings env rest ?s1"
      using Inr by (simp add: single_ok)
    with Cons.prems have "fst (add_sgf_strings env rest ?s1) = None" by simp
    from Cons.IH [OF this] rest w1 Inr show ?thesis by auto
  qed
qed

section \<open>Facts about counting games\<close>

lemma total_games_upd:
  "total_games (res(k \<mapsto> r)) p q =
     (if (p, q) = k then win r + lost r + draw r else total_games res p q)"
  by (auto simp add: total_games_def)

lemma games_recorded_upd:
  assumes "finite (dom res)"
  shows "games_recorded (res(k \<mapsto> r)) =
           games_recorded res - total_games res (fst k) (snd k) + (win r + lost r + draw r)"
proof -
  let ?f = "\<lambda>k. total_games res (fst k) (snd k)"
  let ?g = "\<lambda>k'. total_games (res(k \<mapsto> r)) (fst k') (snd k')"
  have same: "sum ?g (dom res - {k}) = sum ?f (dom res - {k})"
    by (rule sum.cong) (auto simp add: total_games_upd)
  have new: "games_recorded (res(k \<mapsto> r)) = ?g k + sum ?g (dom res - {k})"
    using assms by (simp add: games_recorded_def sum.insert_remove)
  have old: "games_recorded res = ?f k + sum ?f (dom res - {k})"
  proof (cases "k \<in> dom res")
    case True
    with assms show ?thesis by (simp add: games_recorded_def sum.remove)
  next
    case False
    then have "?f k = 0" by (auto simp add: total_games_def domIff split: option.splits)
    with False show ?thesis by (simp add: games_recorded_def)
  qed
  from new old same show ?thesis by (simp add: total_games_upd)
qed

lemma single_count:
  assumes "from_bytes env sgf = Inr g" and "finite (dom (results s))"
  shows "games_recorded (results (snd (add_a_single_sgf_string env sgf s))) = games_recorded (results s) + 1"
    and "finite (dom (results (snd (add_a_single_sgf_string env sgf s))))"
  using assms
  by (auto simp add: single_ok games_recorded_upd total_games_def Let_def split: option.splits)

lemma single_mono:
  assumes "results s k = Some r"
  shows "\<exists>r'. results (snd (add_a_single_sgf_string env sgf s)) k = Some r'
           \<and> win r \<le> win r' \<and> lost r \<le> lost r' \<and> draw r \<le> draw r'"
  using assms
  by (cases "from_bytes env sgf") (auto simp add: single_ok single_fail Let_def)

lemma folds_mono:
  "folds env n s s' \<Longrightarrow> results s k = Some r \<Longrightarrow>
   \<exists>r'. results s' k = Some r' \<and> win r \<le> win r' \<and> lost r \<le> lost r' \<and> draw r \<le> draw r'"
proof (induction arbitrary: r rule: folds.induct)
  case (folds_same s' s)
  then show ?case by auto
next
  case (folds_one sgf g s)
  then show ?case using single_mono by blast
next
  case (folds_trans n s s' m s'')
  from folds_trans.IH(1) [OF folds_trans.prems] obtain r1 where
    r1: "results s' k = Some r1" "win r \<le> win r1" "lost r \<le> lost r1" "draw r \<le> draw r1" by blast
  from folds_trans.IH(2) [OF r1(1)] obtain r2 where
    "results s'' k = Some r2" "win r1 \<le> win r2" "lost r1 \<le> lost r2" "draw r1 \<le> draw r2" by blast
  with r1 show ?case by auto
qed

lemma folds_count:
  "folds env n s s' \<Longrightarrow> finite (dom (results s)) \<Longrightarrow>
   finite (dom (results s')) \<and> games_recorded (results s') = games_recorded (results s) + int n"
proof (induction rule: folds.induct)
  case (folds_same s' s)
  then show ?case by simp
next
  case (folds_one sgf g s)
  then show ?case using single_count by simp
next
  case (folds_trans n s s' m s'')
  then show ?case by simp
qed

lemma single_folds: "\<exists>n. folds env n s (snd (add_a_single_sgf_string env sgf s))"
proof (cases "from_bytes env sgf")
  case (Inl e)
  then have "folds env 0 s (snd (add_a_single_sgf_string env sgf s))"
    by (simp add: single_fail folds_same)
  then show ?thesis ..
next
  case (Inr g)
  then have "folds env 1 s (snd (add_a_single_sgf_string env sgf s))" by (rule folds_one)
  then show ?thesis ..
qed

lemma add_games_folds: "\<exists>n. folds env n s (snd (add_games env d b s))"
  by (rule chain_add_games [where R = "\<lambda>s s'. \<exists>n. folds env n s s'"])
     (auto intro: folds_same folds_trans single_folds)

lemma add_a_game_file_folds: "\<exists>n. folds env n s (snd (add_a_game_file env f s))"
  by (rule chain_add_a_game_file [where R = "\<lambda>s s'. \<exists>n. folds env n s s'"])
     (auto intro: folds_same folds_trans single_folds)

lemma apply_operation_folds:
  "operation \<noteq> Clear \<Longrightarrow> \<exists>n. folds env n s (apply_operation env operation s)"
proof (cases operation)
  case (Add_games d b)
  then show ?thesis by (simp add: add_games_folds)
next
  case (Add_a_game_file f)
  then show ?thesis by (simp add: add_a_game_file_folds)
next
  case Clear
  moreover assume "operation \<noteq> Clear"
  ultimately show ?thesis by simp
next
  case Print_game_results
  have "folds env 0 s (snd (print_game_results env s))"
    by (rule folds_same) (simp add: print_game_results_frame)
  with Print_game_results show ?thesis by auto
qed

lemma run_operations_folds:
  "Clear \<notin> set ops \<Longrightarrow> \<exists>n. folds env n s (run_operations env ops s)"
proof (induction ops arbitrary: s)
  case Nil
  have "folds env 0 s s" by (rule folds_same) simp
  then show ?case by auto
next
  case (Cons operation rest)
  then obtain n where a: "folds env n s (apply_operation env operation s)"
    using apply_operation_folds [of operation env s] by auto
  from Cons obtain m where
    "folds env m (apply_operation env operation s) (run_operations env rest (apply_operation env operation s))"
    by fastforce
  with a have "folds env (n + m) s (run_operations env (operation # rest) s)"
    by (simp add: folds_trans)
  then show ?case ..
qed

lemma since_clear:
  assumes "\<exists>n s0. results s0 = Map.empty \<and> folds env n s0 s"
  shows "\<exists>n s0. results s0 = Map.empty \<and> folds env n s0 (run_operations env ops s)"
  using assms
proof (induction ops arbitrary: s)
  case Nil
  then show ?case by simp
next
  case (Cons operation rest)
  have "\<exists>n s0. results s0 = Map.empty \<and> folds env n s0 (apply_operation env operation s)"
  proof (cases "operation = Clear")
    case True
    have "results (clear s) = Map.empty" by (simp add: clear_def)
    moreover have "folds env 0 (clear s) (clear s)" by (rule folds_same) simp
    ultimately show ?thesis using True by auto
  next
    case False
    from Cons.prems obtain n s0 where a: "results s0 = Map.empty" "folds env n s0 s" by blast
    from apply_operation_folds [OF False] obtain m where
      "folds env m s (apply_operation env operation s)" by blast
    with a(2) have "folds env (n + m) s0 (apply_operation env operation s)" by (rule folds_trans)
    with a(1) show ?thesis by blast
  qed
  from Cons.IH [OF this] show ?case by simp
qed

section \<open>Facts about the win matrix and the fixture\<close>


lemma collect_Inl:
  "collect f xs = Inl e \<Longrightarrow> \<exists>x \<in> set xs. f x = Inl e"
  by (induction xs) (auto split: sum.splits)

lemma collect_fails:
  "x \<in> set xs \<Longrightarrow> f x = Inl e \<Longrightarrow> \<exists>e'. collect f xs = Inl e'"
  by (induction xs) (auto split: sum.splits)

lemma collect_succeeds:
  "(\<And>x. x \<in> set xs \<Longrightarrow> \<exists>y. f x = Inr y) \<Longrightarrow> \<exists>ys. collect f xs = Inr ys"
proof (induction xs)
  case Nil
  show ?case by simp
next
  case (Cons x xs)
  then obtain y ys where "f x = Inr y" "collect f xs = Inr ys" by fastforce
  then show ?case by simp
qed


lemma matrix_entry_Inl:
  "matrix_entry res p q = Inl e \<longleftrightarrow>
     e = KeyError \<and> p \<noteq> q \<and> (res (p, q) = None \<or> res (q, p) = None)"
  by (auto simp add: matrix_entry_def getitem_def split: option.splits)


lemma matrix_entry_off:
  "p \<noteq> q \<Longrightarrow> res (p, q) = Some r1 \<Longrightarrow> res (q, p) = Some r2 \<Longrightarrow>
   matrix_entry res p q =
     Inr (PyFloat (of_int (win r1 + lost r2) + 0.5 * of_int (draw r1 + draw r2)))"
  by (simp add: matrix_entry_def getitem_def)

lemma build_Inl:
  "build_result_matrix env self = Inl e \<longleftrightarrow>
     e = KeyError \<and>
     (\<exists>p \<in> set (names_iter env (pla_names (results self))).
      \<exists>q \<in> set (names_iter env (pla_names (results self))).
        p \<noteq> q \<and> results self (p, q) = None)"
proof
  assume "build_result_matrix env self = Inl e"
  then obtain p where p: "p \<in> set (names_iter env (pla_names (results self)))"
      "collect (\<lambda>pla2. matrix_entry (results self) p pla2) (names_iter env (pla_names (results self))) = Inl e"
    unfolding build_result_matrix_def Let_def by (blast dest: collect_Inl)
  from collect_Inl [OF p(2)] obtain q where q: "q \<in> set (names_iter env (pla_names (results self)))"
      "matrix_entry (results self) p q = Inl e" by blast
  from q(2) have "e = KeyError" "p \<noteq> q" "results self (p, q) = None \<or> results self (q, p) = None"
    by (simp_all add: matrix_entry_Inl)
  with p(1) q(1) show "e = KeyError \<and>
     (\<exists>p \<in> set (names_iter env (pla_names (results self))).
      \<exists>q \<in> set (names_iter env (pla_names (results self))).
        p \<noteq> q \<and> results self (p, q) = None)" by metis
next
  let ?ps = "names_iter env (pla_names (results self))"
  assume "e = KeyError \<and> (\<exists>p \<in> set ?ps. \<exists>q \<in> set ?ps. p \<noteq> q \<and> results self (p, q) = None)"
  then obtain p q where e: "e = KeyError" and pq: "p \<in> set ?ps" "q \<in> set ?ps" "p \<noteq> q"
      "results self (p, q) = None" by blast
  have "matrix_entry (results self) p q = Inl KeyError" using pq by (simp add: matrix_entry_Inl)
  from collect_fails [where f = "\<lambda>pla2. matrix_entry (results self) p pla2", OF pq(2) this] obtain e1 where
    "collect (\<lambda>pla2. matrix_entry (results self) p pla2) ?ps = Inl e1" by blast
  from collect_fails [where f = "\<lambda>pla1. collect (\<lambda>pla2. matrix_entry (results self) pla1 pla2) ?ps", OF pq(1) this]
  obtain e2 where b: "build_result_matrix env self = Inl e2"
    unfolding build_result_matrix_def Let_def by blast
  then obtain p' where "p' \<in> set ?ps"
      "collect (\<lambda>pla2. matrix_entry (results self) p' pla2) ?ps = Inl e2"
    unfolding build_result_matrix_def Let_def by (blast dest: collect_Inl)
  then have "e2 = KeyError" by (auto dest!: collect_Inl simp add: matrix_entry_Inl)
  with b e show "build_result_matrix env self = Inl e" by simp
qed


lemma fixture_env_sel:
  "os_path_exists fixture_env p = (p \<in> set [''d'', ''d/a.sgf'', ''d/b.sgfs'', ''e.sgfs''])"
  "os_path_isfile fixture_env p = (p \<in> set [''d/a.sgf'', ''d/b.sgfs'', ''e.sgfs''])"
  "os_listdir fixture_env p = (if p = ''d'' then Inr [''a.sgf'', ''b.sgfs''] else Inl OSError)"
  "os_walk fixture_env p = (if p = ''d'' then [(''d'', [], [''a.sgf'', ''b.sgfs''])] else [])"
  "open_rb fixture_env p = (if p = ''d/a.sgf'' then Inr ''A''
                      else if p = ''d/b.sgfs'' then Inr ''B\<newline>D\<newline>''
                      else if p = ''e.sgfs'' then Inr ''A\<newline>X\<newline>B\<newline>''
                      else Inl OSError)"
  "from_bytes fixture_env = fixture_from_bytes"
  "set_iter fixture_env S = filter (\<lambda>p. p \<in> S) [''d/a.sgf'', ''d/b.sgfs'', ''e.sgfs'']"
  "names_iter fixture_env N = filter (\<lambda>p. p \<in> N) [Some ''Alice'', Some ''Bob'', Some ''Carol'', None]"
  by (simp_all add: fixture_env_def)

lemma build_cong:
  "results s = results s' \<Longrightarrow> build_result_matrix env s = build_result_matrix env s'"
  by (simp add: build_result_matrix_def)

lemma table_of_results [simp]: "results (table_of entries) = map_of entries"
  by (simp add: table_of_def init_def)

lemma elo_pair_missing:
  "p \<noteq> q \<Longrightarrow> res (p, q) = None \<Longrightarrow> elo_pair elo res p q = Inl KeyError"
  by (simp add: elo_pair_def getitem_def)

lemma estimate_elo_fails:
  assumes "p \<in> set (names_iter env (pla_names (results self)))"
    and "q \<in> set (names_iter env (pla_names (results self)))"
    and "p \<noteq> q" and "results self (p, q) = None"
  shows "\<exists>e. estimate_elo elo env self = Inl e"
proof -
  let ?ps = "names_iter env (pla_names (results self))"
  have "elo_pair elo (results self) p q = Inl KeyError"
    using assms(3,4) by (rule elo_pair_missing)
  from collect_fails [where f = "\<lambda>pla_White. elo_pair elo (results self) p pla_White", OF assms(2) this]
  obtain e1 where "collect (\<lambda>pla_White. elo_pair elo (results self) p pla_White) ?ps = Inl e1" by blast
  from collect_fails [where f = "\<lambda>pla_Balck. collect (\<lambda>pla_White. elo_pair elo (results self) pla_Balck pla_White) ?ps",
    OF assms(1) this]
  obtain e2 where
    "collect (\<lambda>pla_Balck. collect (\<lambda>pla_White. elo_pair elo (results self) pla_Balck pla_White) ?ps) ?ps = Inl e2"
    by blast
  then have "estimate_elo elo env self = Inl e2" by (simp add: estimate_elo_def Let_def)
  then show ?thesis ..
qed

lemma build_succeeds:
  assumes "\<forall>p \<in> set (names_iter env (pla_names (results self))).
           \<forall>q \<in> set (names_iter env (pla_names (results self))). p \<noteq> q \<longrightarrow> results self (p, q) \<noteq> None"
  shows "\<exists>M. build_result_matrix env self = Inr M"
proof (cases "build_result_matrix env self")
  case (Inl e)
  then have "\<exists>p \<in> set (names_iter env (pla_names (results self))).
      \<exists>q \<in> set (names_iter env (pla_names (results self))). p \<noteq> q \<and> results self (p, q) = None"
    by (simp add: build_Inl)
  with assms show ?thesis by blast
next
  case (Inr M)
  then show ?thesis by blast
qed




lemma fixture_parse:
  "from_bytes fixture_env ''A'' = Inr (mk_game (Some (CHR ''b'')) (Some ''Alice'') (Some ''Bob'') None 7)"
  "from_bytes fixture_env ''D'' = Inr (mk_game None (Some ''Alice'') (Some ''Bob'') None 6.5)"
  "from_bytes fixture_env ''S'' = Inr (mk_game (Some (CHR ''b'')) (Some ''Alice'') (Some ''Alice'') None 7)"
  by (simp_all add: fixture_env_sel fixture_from_bytes_def)



lemma ingest_a_sgf:
  "results (snd (add_a_game_file fixture_env ''d/a.sgf'' (init 0)))
     = [(Some ''Alice'', Some ''Bob'') \<mapsto> \<lparr>win = 1, lost = 0, draw = 0\<rparr>]"
  by (simp add: add_a_game_file_def add_a_game_file_name_def add_new_games_to_result_dict_def
     add_one_sgf_file_to_result_def add_a_single_sgf_string_def fixture_env_sel
     fixture_from_bytes_def mk_game_def init_def getitem_def py_print_def
     lower_def lower_char_def split_last_def Let_def)



lemma pla_names_empty: "pla_names Map.empty = {}"
  by (simp add: pla_names_def)

section \<open>Re-reading files that were already read\<close>

text \<open>
  Claim C1 (ingesting a tracked path again leaves the tracked files and the table as
  they were). The code does not do this. \<^verbatim>\<open>_add_a_game_file_name\<close> returns early
  on a path that is already tracked, having emptied only the set of new files of that
  path's kind; \<^verbatim>\<open>add_a_game_file\<close> then runs \<^verbatim>\<open>_add_new_games_to_result_dict\<close>
  over the set of new files of the other kind, which still holds what the previous
  call found. Here the directory \<open>d\<close> is scanned (one game Alice against Bob from
  \<open>d/a.sgf\<close>, one draw from \<open>d/b.sgfs\<close>) and then the tracked file \<open>d/b.sgfs\<close> is
  added again: the tracked sets stay, but \<open>d/a.sgf\<close> is read a second time and the
  entry of (Alice, Bob) goes from one win to two.
\<close>

theorem C1_second_ingestion_rereads_other_kind:
  "''d/b.sgfs'' \<in> all_sgfs_files (snd (add_games fixture_env ''d'' False (init 0)))
   \<and> results (snd (add_games fixture_env ''d'' False (init 0))) (Some ''Alice'', Some ''Bob'')
       = Some \<lparr>win = 1, lost = 0, draw = 1\<rparr>
   \<and> fst (add_a_game_file fixture_env ''d/b.sgfs''
            (snd (add_games fixture_env ''d'' False (init 0)))) = None
   \<and> all_sgfs_files (snd (add_a_game_file fixture_env ''d/b.sgfs''
            (snd (add_games fixture_env ''d'' False (init 0)))))
       = all_sgfs_files (snd (add_games fixture_env ''d'' False (init 0)))
   \<and> all_sgf_files (snd (add_a_game_file fixture_env ''d/b.sgfs''
            (snd (add_games fixture_env ''d'' False (init 0)))))
       = all_sgf_files (snd (add_games fixture_env ''d'' False (init 0)))
   \<and> results (snd (add_a_game_file fixture_env ''d/b.sgfs''
            (snd (add_games fixture_env ''d'' False (init 0)))))
        (Some ''Alice'', Some ''Bob'') = Some \<lparr>win = 2, lost = 0, draw = 1\<rparr>"
  by code_simp

text \<open>
  Claim C5 (a directory that does not exist: an error is reported and nothing changes,
  whatever was ingested before). The code does not do this, by the same defect as in
  C1. \<^verbatim>\<open>_add_game_file_names\<close> prints and returns on the missing directory without
  touching the sets of new files, and \<^verbatim>\<open>add_games\<close> goes on to
  \<^verbatim>\<open>_add_new_games_to_result_dict\<close>, which reads again the files the previous call
  found. Here \<open>d/a.sgf\<close> is added (one win for Alice against Bob) and then the missing
  directory is scanned: no exception, and the entry has two wins.
\<close>

theorem C5_missing_directory_rereads_last_files:
  "results (snd (add_a_game_file fixture_env ''d/a.sgf'' (init 0))) (Some ''Alice'', Some ''Bob'')
       = Some \<lparr>win = 1, lost = 0, draw = 0\<rparr>
   \<and> \<not> os_path_exists fixture_env ''missing''
   \<and> fst (add_games fixture_env ''missing'' False
            (snd (add_a_game_file fixture_env ''d/a.sgf'' (init 0)))) = None
   \<and> results (snd (add_games fixture_env ''missing'' False
            (snd (add_a_game_file fixture_env ''d/a.sgf'' (init 0)))))
        (Some ''Alice'', Some ''Bob'') = Some \<lparr>win = 2, lost = 0, draw = 0\<rparr>"
  by code_simp

section \<open>The warning flag\<close>

text \<open>
  Claim C8. The flag \<^verbatim>\<open>_warning\<close> after folding one game is the flag before, or the
  game has a handicap, or its komi is below 5.5 or above 7.5: so the first such game
  sets it, a game with komi exactly 5.5 or 7.5 and no handicap leaves it as it was, and
  no fold clears it. After a list of games that all parse, it is set exactly when it
  was set before or one of the games is of that kind. Once set it stays set through
  every method but \<^verbatim>\<open>clear\<close>, also through a call that raises; \<^verbatim>\<open>clear\<close> and the
  constructor leave it unset.
\<close>

theorem C8_warning_is_sticky:
  "(from_bytes env sgf = Inr g \<longrightarrow>
      warning (snd (add_a_single_sgf_string env sgf self)) =
        (warning self \<or> get_handicap g \<noteq> None \<or> get_komi g < 5.5 \<or> get_komi g > 7.5))
   \<and> (fst (add_sgf_strings env sgfs self) = None \<longrightarrow>
        warning (snd (add_sgf_strings env sgfs self)) =
          (warning self \<or> (\<exists>s \<in> set sgfs. \<exists>g. from_bytes env s = Inr g \<and>
             (get_handicap g \<noteq> None \<or> get_komi g < 5.5 \<or> get_komi g > 7.5))))
   \<and> (warning self \<longrightarrow>
        warning (snd (add_a_single_sgf_string env sgf self))
        \<and> warning (snd (add_sgf_strings env sgfs self))
        \<and> warning (snd (add_games env input_file_dir search_subdir self))
        \<and> warning (snd (add_a_game_file env input_file_name self))
        \<and> warning (snd (print_game_results env self))
        \<and> (Clear \<notin> set ops \<longrightarrow> warning (run_operations env ops self)))
   \<and> \<not> warning (clear self)
   \<and> \<not> warning (init prior)"
proof -
  have keep_games: "warning s \<longrightarrow> warning (snd (add_games env d b s))" for s d b
    by (rule chain_add_games [where R = "\<lambda>s s'. warning s \<longrightarrow> warning s'"])
       (simp_all add: single_warning)
  have keep_file: "warning s \<longrightarrow> warning (snd (add_a_game_file env f s))" for s f
    by (rule chain_add_a_game_file [where R = "\<lambda>s s'. warning s \<longrightarrow> warning s'"])
       (simp_all add: single_warning)
  have keep_strings: "warning self \<longrightarrow> warning (snd (add_sgf_strings env sgfs self))"
    by (rule chain_strings [where R = "\<lambda>s s'. warning s \<longrightarrow> warning s'"])
       (simp_all add: single_warning)
  have ops_keep: "warning s \<Longrightarrow> Clear \<notin> set ops \<Longrightarrow> warning (run_operations env ops s)" for s
  proof (induction ops arbitrary: s)
    case Nil
    then show ?case by simp
  next
    case (Cons operation rest)
    have "warning (apply_operation env operation s)"
    proof (cases operation)
      case (Add_games d b)
      with keep_games [of s d b] Cons.prems show ?thesis by simp
    next
      case (Add_a_game_file f)
      with keep_file [of s f] Cons.prems show ?thesis by simp
    next
      case Clear
      with Cons.prems show ?thesis by simp
    next
      case Print_game_results
      with Cons.prems show ?thesis by (simp add: print_game_results_frame)
    qed
    with Cons show ?case by simp
  qed
  have a: "from_bytes env sgf = Inr g \<longrightarrow>
      warning (snd (add_a_single_sgf_string env sgf self)) =
        (warning self \<or> get_handicap g \<noteq> None \<or> get_komi g < 5.5 \<or> get_komi g > 7.5)"
    by (simp add: single_ok)
  have b: "fst (add_sgf_strings env sgfs self) = None \<longrightarrow>
        warning (snd (add_sgf_strings env sgfs self)) =
          (warning self \<or> (\<exists>s \<in> set sgfs. \<exists>g. from_bytes env s = Inr g \<and>
             (get_handicap g \<noteq> None \<or> get_komi g < 5.5 \<or> get_komi g > 7.5)))"
    using strings_warning by blast
  have c: "warning self \<longrightarrow>
        warning (snd (add_a_single_sgf_string env sgf self))
        \<and> warning (snd (add_sgf_strings env sgfs self))
        \<and> warning (snd (add_games env input_file_dir search_subdir self))
        \<and> warning (snd (add_a_game_file env input_file_name self))
        \<and> warning (snd (print_game_results env self))
        \<and> (Clear \<notin> set ops \<longrightarrow> warning (run_operations env ops self))"
    using single_warning [of self env sgf] keep_strings
      keep_games [of self input_file_dir search_subdir]
      keep_file [of self input_file_name] ops_keep [of self]
    by (simp add: print_game_results_frame)
  have d: "\<not> warning (clear self)" by (simp add: clear_def)
  have e: "\<not> warning (init prior)" by (simp add: init_def)
  from a b c d e show ?thesis by blast
qed

text \<open>
  The scenario of the specification: a game with komi 5.0 sets the flag and a later
  game with komi 6.5 does not clear it; komi 5.5 and 7.5 without handicap do not set
  it; a handicap game between them does.
\<close>

theorem C8_warning_is_sticky_witness:
  "from_bytes fixture_env ''K'' = Inr (mk_game (Some (CHR ''w'')) (Some ''Alice'') (Some ''Bob'') None 5)
   \<and> \<not> warning (init 0)
   \<and> warning (snd (add_a_single_sgf_string fixture_env ''K'' (init 0)))
   \<and> fst (add_sgf_strings fixture_env [''K'', ''D''] (init 0)) = None
   \<and> warning (snd (add_sgf_strings fixture_env [''K'', ''D''] (init 0)))
   \<and> fst (add_sgf_strings fixture_env [''L'', ''U''] (init 0)) = None
   \<and> \<not> warning (snd (add_sgf_strings fixture_env [''L'', ''U''] (init 0)))
   \<and> warning (snd (add_sgf_strings fixture_env [''L'', ''H'', ''U''] (init 0)))"
proof -
  have parse: "from_bytes fixture_env ''K'' = Inr (mk_game (Some (CHR ''w'')) (Some ''Alice'') (Some ''Bob'') None 5)"
    by (simp add: fixture_env_def fixture_from_bytes_def)
  have ok: "fst (add_sgf_strings fixture_env [''K'', ''D''] (init 0)) = None"
    "fst (add_sgf_strings fixture_env [''L'', ''U''] (init 0)) = None"
    "fst (add_sgf_strings fixture_env [''L'', ''H'', ''U''] (init 0)) = None"
    by code_simp+
  have w0: "\<not> warning (init 0)" by (simp add: init_def)
  note t1 = C8_warning_is_sticky [of fixture_env "''K''" "mk_game (Some (CHR ''w'')) (Some ''Alice'') (Some ''Bob'') None 5"
      "init 0" "[''K'', ''D'']"]
  note t2 = C8_warning_is_sticky [of fixture_env "''K''" "mk_game (Some (CHR ''w'')) (Some ''Alice'') (Some ''Bob'') None 5"
      "init 0" "[''L'', ''U'']"]
  note t3 = C8_warning_is_sticky [of fixture_env "''K''" "mk_game (Some (CHR ''w'')) (Some ''Alice'') (Some ''Bob'') None 5"
      "init 0" "[''L'', ''H'', ''U'']"]
  have a: "warning (snd (add_a_single_sgf_string fixture_env ''K'' (init 0)))"
    using t1 parse by (simp add: mk_game_def)
  have b: "warning (snd (add_sgf_strings fixture_env [''K'', ''D''] (init 0)))"
    using t1 ok(1) by (simp add: fixture_env_def fixture_from_bytes_def mk_game_def)
  have c: "\<not> warning (snd (add_sgf_strings fixture_env [''L'', ''U''] (init 0)))"
    using t2 ok(2) w0 by (simp add: fixture_env_def fixture_from_bytes_def mk_game_def)
  have d: "warning (snd (add_sgf_strings fixture_env [''L'', ''H'', ''U''] (init 0)))"
    using t3 ok(3) by (simp add: fixture_env_def fixture_from_bytes_def mk_game_def)
  from parse w0 a ok(1) b ok(2) c d show ?thesis by blast
qed

section \<open>Conservation of the counters\<close>

text \<open>
  Claim C10. A game that parses changes the entry of its pair (black, white) and no
  other; the new entry is the old one (or the zero record when the key was new) with
  exactly one of its three counters increased by one; and the sum of all counters of
  the table grows by one. A record that does not parse changes nothing. After any
  sequence of calls of the public methods on a new object, the table is what some
  number \<open>n\<close> of successful folds made of an empty table (the object at
  construction or at the most recent \<^verbatim>\<open>clear\<close>), and the sum of all its counters is
  \<open>n\<close>. Without \<^verbatim>\<open>clear\<close> no key disappears and no counter decreases;
  \<^verbatim>\<open>clear\<close> empties the table.
\<close>

theorem C10_counter_conservation:
  "(from_bytes env sgf = Inr g \<longrightarrow>
      (\<exists>r'. results (snd (add_a_single_sgf_string env sgf self))
               (get_player_name g (CHR ''b''), get_player_name g (CHR ''w'')) = Some r'
          \<and> (let r = (case results self (get_player_name g (CHR ''b''), get_player_name g (CHR ''w'')) of
                         None \<Rightarrow> \<lparr>win = 0, lost = 0, draw = 0\<rparr> | Some r \<Rightarrow> r)
             in r' = r\<lparr>win := win r + 1\<rparr> \<or> r' = r\<lparr>lost := lost r + 1\<rparr>
                \<or> r' = r\<lparr>draw := draw r + 1\<rparr>))
      \<and> (\<forall>k. k \<noteq> (get_player_name g (CHR ''b''), get_player_name g (CHR ''w'')) \<longrightarrow>
             results (snd (add_a_single_sgf_string env sgf self)) k = results self k)
      \<and> (finite (dom (results self)) \<longrightarrow>
             games_recorded (results (snd (add_a_single_sgf_string env sgf self)))
               = games_recorded (results self) + 1))
   \<and> (from_bytes env sgf = Inl e \<longrightarrow> add_a_single_sgf_string env sgf self = (Some e, self))
   \<and> (\<exists>n s0. results s0 = Map.empty
          \<and> folds env n s0 (run_operations env ops (init prior))
          \<and> games_recorded (results (run_operations env ops (init prior))) = int n)
   \<and> (Clear \<notin> set ops \<longrightarrow>
        (\<forall>k r. results self k = Some r \<longrightarrow>
           (\<exists>r'. results (run_operations env ops self) k = Some r'
              \<and> win r \<le> win r' \<and> lost r \<le> lost r' \<and> draw r \<le> draw r')))
   \<and> results (clear self) = Map.empty
   \<and> games_recorded (results (clear self)) = 0"
proof -
  have a: "from_bytes env sgf = Inr g \<longrightarrow>
      (\<exists>r'. results (snd (add_a_single_sgf_string env sgf self))
               (get_player_name g (CHR ''b''), get_player_name g (CHR ''w'')) = Some r'
          \<and> (let r = (case results self (get_player_name g (CHR ''b''), get_player_name g (CHR ''w'')) of
                         None \<Rightarrow> \<lparr>win = 0, lost = 0, draw = 0\<rparr> | Some r \<Rightarrow> r)
             in r' = r\<lparr>win := win r + 1\<rparr> \<or> r' = r\<lparr>lost := lost r + 1\<rparr>
                \<or> r' = r\<lparr>draw := draw r + 1\<rparr>))
      \<and> (\<forall>k. k \<noteq> (get_player_name g (CHR ''b''), get_player_name g (CHR ''w'')) \<longrightarrow>
             results (snd (add_a_single_sgf_string env sgf self)) k = results self k)
      \<and> (finite (dom (results self)) \<longrightarrow>
             games_recorded (results (snd (add_a_single_sgf_string env sgf self)))
               = games_recorded (results self) + 1)"
  proof
    assume p: "from_bytes env sgf = Inr g"
    have 1: "\<exists>r'. results (snd (add_a_single_sgf_string env sgf self))
               (get_player_name g (CHR ''b''), get_player_name g (CHR ''w'')) = Some r'
          \<and> (let r = (case results self (get_player_name g (CHR ''b''), get_player_name g (CHR ''w'')) of
                         None \<Rightarrow> \<lparr>win = 0, lost = 0, draw = 0\<rparr> | Some r \<Rightarrow> r)
             in r' = r\<lparr>win := win r + 1\<rparr> \<or> r' = r\<lparr>lost := lost r + 1\<rparr>
                \<or> r' = r\<lparr>draw := draw r + 1\<rparr>)"
      using p by (simp add: single_ok Let_def)
    have 2: "\<forall>k. k \<noteq> (get_player_name g (CHR ''b''), get_player_name g (CHR ''w'')) \<longrightarrow>
             results (snd (add_a_single_sgf_string env sgf self)) k = results self k"
      using p by (simp add: single_ok)
    have 3: "finite (dom (results self)) \<longrightarrow>
             games_recorded (results (snd (add_a_single_sgf_string env sgf self)))
               = games_recorded (results self) + 1"
      using single_count(1) [OF p] by blast
    from 1 2 3 show "(\<exists>r'. results (snd (add_a_single_sgf_string env sgf self))
               (get_player_name g (CHR ''b''), get_player_name g (CHR ''w'')) = Some r'
          \<and> (let r = (case results self (get_player_name g (CHR ''b''), get_player_name g (CHR ''w'')) of
                         None \<Rightarrow> \<lparr>win = 0, lost = 0, draw = 0\<rparr> | Some r \<Rightarrow> r)
             in r' = r\<lparr>win := win r + 1\<rparr> \<or> r' = r\<lparr>lost := lost r + 1\<rparr>
                \<or> r' = r\<lparr>draw := draw r + 1\<rparr>))
      \<and> (\<forall>k. k \<noteq> (get_player_name g (CHR ''b''), get_player_name g (CHR ''w'')) \<longrightarrow>
             results (snd (add_a_single_sgf_string env sgf self)) k = results self k)
      \<and> (finite (dom (results self)) \<longrightarrow>
             games_recorded (results (snd (add_a_single_sgf_string env sgf self)))
               = games_recorded (results self) + 1)" by blast
  qed
  have b: "from_bytes env sgf = Inl e \<longrightarrow> add_a_single_sgf_string env sgf self = (Some e, self)"
    by (simp add: single_fail)
  have c: "\<exists>n s0. results s0 = Map.empty
          \<and> folds env n s0 (run_operations env ops (init prior))
          \<and> games_recorded (results (run_operations env ops (init prior))) = int n"
  proof -
    have "folds env 0 (init prior) (init prior)" by (rule folds_same) simp
    moreover have "results (init prior) = Map.empty" by (simp add: init_def)
    ultimately have "\<exists>n s0. results s0 = Map.empty \<and> folds env n s0 (init prior)" by blast
    from since_clear [OF this] obtain n s0 where
      s0: "results s0 = Map.empty" and f: "folds env n s0 (run_operations env ops (init prior))"
      by blast
    from s0 have "finite (dom (results s0))" "games_recorded (results s0) = 0"
      by (simp_all add: games_recorded_def)
    with folds_count [OF f] have "games_recorded (results (run_operations env ops (init prior))) = int n"
      by simp
    with s0 f show ?thesis by blast
  qed
  have d: "Clear \<notin> set ops \<longrightarrow>
        (\<forall>k r. results self k = Some r \<longrightarrow>
           (\<exists>r'. results (run_operations env ops self) k = Some r'
              \<and> win r \<le> win r' \<and> lost r \<le> lost r' \<and> draw r \<le> draw r'))"
    using run_operations_folds [of ops env self] folds_mono by blast
  have e: "results (clear self) = Map.empty" "games_recorded (results (clear self)) = 0"
    by (simp_all add: clear_def games_recorded_def)
  from a b c d e show ?thesis by blast
qed

text \<open>
  At a concrete input: one game of Alice against Bob folded into a new object, and a
  directory scan followed by a second ingestion of one of its files.
\<close>

theorem C10_counter_conservation_witness:
  "from_bytes fixture_env ''A'' = Inr (mk_game (Some (CHR ''b'')) (Some ''Alice'') (Some ''Bob'') None 7)
   \<and> finite (dom (results (init 0)))
   \<and> games_recorded (results (init 0)) = 0
   \<and> results (snd (add_a_single_sgf_string fixture_env ''A'' (init 0))) (Some ''Alice'', Some ''Bob'')
        = Some \<lparr>win = 1, lost = 0, draw = 0\<rparr>
   \<and> games_recorded (results (snd (add_a_single_sgf_string fixture_env ''A'' (init 0)))) = 1
   \<and> (\<exists>n. games_recorded (results (run_operations fixture_env
              [Add_games ''d'' False, Add_a_game_file ''d/b.sgfs''] (init 0))) = int n)"
proof -
  have parse: "from_bytes fixture_env ''A'' = Inr (mk_game (Some (CHR ''b'')) (Some ''Alice'') (Some ''Bob'') None 7)"
    by (simp add: fixture_env_def fixture_from_bytes_def)
  have fin: "finite (dom (results (init 0)))" and zero: "games_recorded (results (init 0)) = 0"
    by (simp_all add: init_def games_recorded_def)
  note t = C10_counter_conservation [of fixture_env "''A''"
      "mk_game (Some (CHR ''b'')) (Some ''Alice'') (Some ''Bob'') None 7" "init 0" ValueError
      "[Add_games ''d'' False, Add_a_game_file ''d/b.sgfs'']" 0]
  have one: "results (snd (add_a_single_sgf_string fixture_env ''A'' (init 0))) (Some ''Alice'', Some ''Bob'')
        = Some \<lparr>win = 1, lost = 0, draw = 0\<rparr>"
    using parse by (simp add: single_ok mk_game_def init_def)
  have cnt: "games_recorded (results (snd (add_a_single_sgf_string fixture_env ''A'' (init 0)))) = 1"
    using t parse fin zero by simp
  have ops: "\<exists>n. games_recorded (results (run_operations fixture_env
              [Add_games ''d'' False, Add_a_game_file ''d/b.sgfs''] (init 0))) = int n"
    using t by blast
  from parse fin zero one cnt ops show ?thesis by blast
qed

section \<open>A key that is missing\<close>

text \<open>
  Claim C7, as the code has it. Neither consumer has a default for a missing key: both
  index the dictionary directly. With \<open>ps\<close> the player index, the win matrix is built
  exactly when every ordered pair of distinct players of \<open>ps\<close> is a key of the table;
  when one is missing, \<^verbatim>\<open>_build_result_matrix\<close> raises \<^verbatim>\<open>KeyError\<close> and
  \<^verbatim>\<open>_estimate_elo\<close> raises too. For a single missing pair \<open>(a, b)\<close> of distinct
  players, the matrix entry of \<open>(a, b)\<close>, that of \<open>(b, a)\<close> and the rating
  preparation of \<open>(a, b)\<close> each raise \<^verbatim>\<open>KeyError\<close>.
\<close>

theorem C7_missing_key_raises:
  assumes "names_iter env (pla_names (results self)) = ps"
  shows "((\<exists>p \<in> set ps. \<exists>q \<in> set ps. p \<noteq> q \<and> results self (p, q) = None) \<longrightarrow>
            build_result_matrix env self = Inl KeyError \<and> (\<exists>e. estimate_elo elo env self = Inl e))
         \<and> (\<not> (\<exists>p \<in> set ps. \<exists>q \<in> set ps. p \<noteq> q \<and> results self (p, q) = None) \<longrightarrow>
            (\<exists>M. build_result_matrix env self = Inr M))
         \<and> (a \<noteq> b \<and> results self (a, b) = None \<longrightarrow>
              matrix_entry (results self) a b = Inl KeyError
              \<and> matrix_entry (results self) b a = Inl KeyError
              \<and> elo_pair elo (results self) a b = Inl KeyError)"
proof -
  have 1: "(\<exists>p \<in> set ps. \<exists>q \<in> set ps. p \<noteq> q \<and> results self (p, q) = None) \<longrightarrow>
            build_result_matrix env self = Inl KeyError \<and> (\<exists>e. estimate_elo elo env self = Inl e)"
    using assms estimate_elo_fails [of _ env self _ elo] by (auto simp add: build_Inl)
  have 2: "\<not> (\<exists>p \<in> set ps. \<exists>q \<in> set ps. p \<noteq> q \<and> results self (p, q) = None) \<longrightarrow>
            (\<exists>M. build_result_matrix env self = Inr M)"
    using assms build_succeeds [of env self] by auto
  have 3: "a \<noteq> b \<and> results self (a, b) = None \<longrightarrow>
              matrix_entry (results self) a b = Inl KeyError
              \<and> matrix_entry (results self) b a = Inl KeyError
              \<and> elo_pair elo (results self) a b = Inl KeyError"
    by (auto simp add: matrix_entry_Inl elo_pair_missing)
  from 1 2 3 show ?thesis by blast
qed

text \<open>
  At a concrete input: a table with the single key (Alice, Bob); (Bob, Alice) is
  missing.
\<close>

theorem C7_missing_key_raises_witness:
  "names_iter fixture_env (pla_names (results (table_of
       [((Some ''Alice'', Some ''Bob''), \<lparr>win = 1, lost = 0, draw = 0\<rparr>)]))) = [Some ''Alice'', Some ''Bob'']
   \<and> results (table_of [((Some ''Alice'', Some ''Bob''), \<lparr>win = 1, lost = 0, draw = 0\<rparr>)])
        (Some ''Bob'', Some ''Alice'') = None
   \<and> build_result_matrix fixture_env (table_of
        [((Some ''Alice'', Some ''Bob''), \<lparr>win = 1, lost = 0, draw = 0\<rparr>)]) = Inl KeyError
   \<and> (\<exists>e. estimate_elo fixture_elo fixture_env (table_of
        [((Some ''Alice'', Some ''Bob''), \<lparr>win = 1, lost = 0, draw = 0\<rparr>)]) = Inl e)
   \<and> elo_pair fixture_elo (results (table_of
        [((Some ''Alice'', Some ''Bob''), \<lparr>win = 1, lost = 0, draw = 0\<rparr>)]))
        (Some ''Bob'') (Some ''Alice'') = Inl KeyError"
proof -
  let ?T = "table_of [((Some ''Alice'', Some ''Bob''), \<lparr>win = 1, lost = 0, draw = 0\<rparr>)]"
  have n: "names_iter fixture_env (pla_names (results ?T)) = [Some ''Alice'', Some ''Bob'']"
    by (simp add: fixture_env_sel pla_names_def)
  have m: "results ?T (Some ''Bob'', Some ''Alice'') = None" by simp
  from C7_missing_key_raises [OF n, of fixture_elo "Some ''Bob''" "Some ''Alice''"] m
  have "build_result_matrix fixture_env ?T = Inl KeyError"
    "\<exists>e. estimate_elo fixture_elo fixture_env ?T = Inl e"
    "elo_pair fixture_elo (results ?T) (Some ''Bob'') (Some ''Alice'') = Inl KeyError"
    by auto
  with n m show ?thesis by blast
qed

text \<open>
  The claim as stated (a missing key reads as a zero record) fails: with three players
  and the key (Bob, Carol) missing, both consumers raise \<^verbatim>\<open>KeyError\<close>.
\<close>

theorem C7_missing_key_counterexample:
  "results (table_of [((Some ''Alice'', Some ''Bob''), \<lparr>win = 1, lost = 0, draw = 0\<rparr>),
                      ((Some ''Bob'', Some ''Alice''), \<lparr>win = 0, lost = 1, draw = 0\<rparr>),
                      ((Some ''Alice'', Some ''Carol''), \<lparr>win = 1, lost = 0, draw = 0\<rparr>)])
     (Some ''Bob'', Some ''Carol'') = None
   \<and> build_result_matrix fixture_env
       (table_of [((Some ''Alice'', Some ''Bob''), \<lparr>win = 1, lost = 0, draw = 0\<rparr>),
                  ((Some ''Bob'', Some ''Alice''), \<lparr>win = 0, lost = 1, draw = 0\<rparr>),
                  ((Some ''Alice'', Some ''Carol''), \<lparr>win = 1, lost = 0, draw = 0\<rparr>)]) = Inl KeyError
   \<and> estimate_elo fixture_elo fixture_env
       (table_of [((Some ''Alice'', Some ''Bob''), \<lparr>win = 1, lost = 0, draw = 0\<rparr>),
                  ((Some ''Bob'', Some ''Alice''), \<lparr>win = 0, lost = 1, draw = 0\<rparr>),
                  ((Some ''Alice'', Some ''Carol''), \<lparr>win = 1, lost = 0, draw = 0\<rparr>)]) = Inl KeyError"
proof -
  let ?T = "table_of [((Some ''Alice'', Some ''Bob''), \<lparr>win = 1, lost = 0, draw = 0\<rparr>),
                  ((Some ''Bob'', Some ''Alice''), \<lparr>win = 0, lost = 1, draw = 0\<rparr>),
                  ((Some ''Alice'', Some ''Carol''), \<lparr>win = 1, lost = 0, draw = 0\<rparr>)]"
  have n: "names_iter fixture_env (pla_names (results ?T)) = [Some ''Alice'', Some ''Bob'', Some ''Carol'']"
    by (simp add: fixture_env_sel pla_names_def)
  have a: "results ?T (Some ''Bob'', Some ''Carol'') = None" by simp
  have b: "build_result_matrix fixture_env ?T = Inl KeyError"
    by (simp add: build_result_matrix_def Let_def fixture_env_sel pla_names_def matrix_entry_def getitem_def)
  have c: "estimate_elo fixture_elo fixture_env ?T = Inl KeyError"
    by (simp add: estimate_elo_def Let_def fixture_env_sel pla_names_def elo_pair_def getitem_def fixture_elo_def)
  from a b c show ?thesis by blast
qed

section \<open>The entries of the win matrix\<close>




section \<open>The symmetry law of the win matrix\<close>




section \<open>Folding one parsed game\<close>

text \<open>
  Claim C2, as the code has it. A game that parses is folded without an exception, and
  the table afterwards is the table before with the entry of the pair (black, white)
  replaced: the old record (the zero record when the key is new) with one more win when
  the winner is black, one more loss when the winner is white, one more draw otherwise.
  In particular, ingesting the single-game file of Alice (black) beating Bob into a new
  object gives the table whose only entry is (Alice, Bob) with one win, no loss and no
  draw. The win matrix \<open>M[Alice][Bob] = 1\<close>, \<open>M[Bob][Alice] = 0\<close> is what the builder
  returns once the table also has a (zero) record for (Bob, Alice); on the table as
  ingested the builder raises \<^verbatim>\<open>KeyError\<close> (the counterexample below).
\<close>

theorem C2_fold_outcome:
  assumes "from_bytes env sgf = Inr g"
  shows "fst (add_a_single_sgf_string env sgf self) = None
    \<and> results (snd (add_a_single_sgf_string env sgf self)) =
        (results self)((get_player_name g (CHR ''b''), get_player_name g (CHR ''w'')) \<mapsto>
           (let r = (case results self (get_player_name g (CHR ''b''), get_player_name g (CHR ''w'')) of
                       None \<Rightarrow> \<lparr>win = 0, lost = 0, draw = 0\<rparr> | Some r \<Rightarrow> r)
            in if get_winner g = Some (CHR ''b'') then r\<lparr>win := win r + 1\<rparr>
               else if get_winner g = Some (CHR ''w'') then r\<lparr>lost := lost r + 1\<rparr>
               else r\<lparr>draw := draw r + 1\<rparr>))
    \<and> fst (add_a_game_file fixture_env ''d/a.sgf'' (init 0)) = None
    \<and> results (snd (add_a_game_file fixture_env ''d/a.sgf'' (init 0)))
        = [(Some ''Alice'', Some ''Bob'') \<mapsto> \<lparr>win = 1, lost = 0, draw = 0\<rparr>]
    \<and> build_result_matrix fixture_env
         ((snd (add_a_game_file fixture_env ''d/a.sgf'' (init 0)))
            \<lparr>results := (results (snd (add_a_game_file fixture_env ''d/a.sgf'' (init 0))))
               ((Some ''Bob'', Some ''Alice'') \<mapsto> \<lparr>win = 0, lost = 0, draw = 0\<rparr>)\<rparr>)
        = Inr [[PyInt 0, PyFloat 1], [PyFloat 0, PyInt 0]]"
proof -
  have a: "fst (add_a_single_sgf_string env sgf self) = None"
    using assms by (simp add: single_ok)
  have b: "results (snd (add_a_single_sgf_string env sgf self)) =
        (results self)((get_player_name g (CHR ''b''), get_player_name g (CHR ''w'')) \<mapsto>
           (let r = (case results self (get_player_name g (CHR ''b''), get_player_name g (CHR ''w'')) of
                       None \<Rightarrow> \<lparr>win = 0, lost = 0, draw = 0\<rparr> | Some r \<Rightarrow> r)
            in if get_winner g = Some (CHR ''b'') then r\<lparr>win := win r + 1\<rparr>
               else if get_winner g = Some (CHR ''w'') then r\<lparr>lost := lost r + 1\<rparr>
               else r\<lparr>draw := draw r + 1\<rparr>))"
    using assms by (simp add: single_ok)
  have c: "fst (add_a_game_file fixture_env ''d/a.sgf'' (init 0)) = None" by code_simp
  have d: "build_result_matrix fixture_env
         ((snd (add_a_game_file fixture_env ''d/a.sgf'' (init 0)))
            \<lparr>results := (results (snd (add_a_game_file fixture_env ''d/a.sgf'' (init 0))))
               ((Some ''Bob'', Some ''Alice'') \<mapsto> \<lparr>win = 0, lost = 0, draw = 0\<rparr>)\<rparr>)
        = Inr [[PyInt 0, PyFloat 1], [PyFloat 0, PyInt 0]]"
    unfolding ingest_a_sgf build_result_matrix_def
    by (simp add: Let_def fixture_env_sel pla_names_def matrix_entry_def getitem_def)
  from a b c ingest_a_sgf d show ?thesis by blast
qed

text \<open>At a concrete input: the record of Alice beating Bob, folded into a new object.\<close>

theorem C2_fold_outcome_witness:
  "from_bytes fixture_env ''A'' = Inr (mk_game (Some (CHR ''b'')) (Some ''Alice'') (Some ''Bob'') None 7)
   \<and> fst (add_a_single_sgf_string fixture_env ''A'' (init 0)) = None
   \<and> results (snd (add_a_single_sgf_string fixture_env ''A'' (init 0)))
       = [(Some ''Alice'', Some ''Bob'') \<mapsto> \<lparr>win = 1, lost = 0, draw = 0\<rparr>]"
proof -
  note t = C2_fold_outcome [OF fixture_parse(1), of "init 0"]
  from t have a: "fst (add_a_single_sgf_string fixture_env ''A'' (init 0)) = None" by blast
  from t have "results (snd (add_a_single_sgf_string fixture_env ''A'' (init 0))) =
        (results (init 0))((get_player_name (mk_game (Some (CHR ''b'')) (Some ''Alice'') (Some ''Bob'') None 7) (CHR ''b''),
                            get_player_name (mk_game (Some (CHR ''b'')) (Some ''Alice'') (Some ''Bob'') None 7) (CHR ''w'')) \<mapsto>
           (let r = (case results (init 0)
                          (get_player_name (mk_game (Some (CHR ''b'')) (Some ''Alice'') (Some ''Bob'') None 7) (CHR ''b''),
                           get_player_name (mk_game (Some (CHR ''b'')) (Some ''Alice'') (Some ''Bob'') None 7) (CHR ''w'')) of
                       None \<Rightarrow> \<lparr>win = 0, lost = 0, draw = 0\<rparr> | Some r \<Rightarrow> r)
            in if get_winner (mk_game (Some (CHR ''b'')) (Some ''Alice'') (Some ''Bob'') None 7) = Some (CHR ''b'')
               then r\<lparr>win := win r + 1\<rparr>
               else if get_winner (mk_game (Some (CHR ''b'')) (Some ''Alice'') (Some ''Bob'') None 7) = Some (CHR ''w'')
               then r\<lparr>lost := lost r + 1\<rparr>
               else r\<lparr>draw := draw r + 1\<rparr>))"
    by blast
  then have b: "results (snd (add_a_single_sgf_string fixture_env ''A'' (init 0)))
       = [(Some ''Alice'', Some ''Bob'') \<mapsto> \<lparr>win = 1, lost = 0, draw = 0\<rparr>]"
    by (simp add: mk_game_def init_def)
  from fixture_parse(1) a b show ?thesis by blast
qed

text \<open>
  The claim as stated (the scenario yields a two-player win matrix) fails: after the
  single game the key (Bob, Alice) is missing and \<^verbatim>\<open>_build_result_matrix\<close> raises.
\<close>

theorem C2_scenario_matrix_counterexample:
  "results (snd (add_a_game_file fixture_env ''d/a.sgf'' (init 0))) (Some ''Bob'', Some ''Alice'') = None
   \<and> build_result_matrix fixture_env (snd (add_a_game_file fixture_env ''d/a.sgf'' (init 0)))
       = Inl KeyError"
  unfolding ingest_a_sgf build_result_matrix_def
  by (simp add: Let_def fixture_env_sel pla_names_def matrix_entry_def getitem_def)

section \<open>A record that does not parse\<close>




section \<open>Reports on an empty table\<close>

text \<open>
  Claim C9, as the code has it. Iterating the empty set yields nothing. When the table
  is empty, \<^verbatim>\<open>_print_player_info\<close> raises \<^verbatim>\<open>ValueError\<close> (\<^verbatim>\<open>max\<close> of an empty
  set), so \<^verbatim>\<open>print_game_results\<close> raises after printing its first heading and
  prints no matrix; the win matrix itself is built, as the empty list, but
  \<^verbatim>\<open>_print_result_matrix\<close> raises \<^verbatim>\<open>ValueError\<close> on it as well (\<^verbatim>\<open>max\<close> of an
  empty list); \<^verbatim>\<open>_estimate_elo\<close> hands the estimator no observation and the
  centering terms of an empty list of players, and returns what the estimator returns.
\<close>

theorem C9_empty_table_reports_raise:
  assumes "results self = Map.empty" and "names_iter env {} = []"
  shows "print_player_info env self = (Some ValueError, self)
    \<and> print_game_results env self = (Some ValueError, py_print ''Player information:'' self)
    \<and> build_result_matrix env self = Inr []
    \<and> print_result_matrix env self = (Some ValueError, self)
    \<and> estimate_elo elo env self =
         (case make_center_elos_prior elo [] (elo_prior self) of
            Inl e \<Rightarrow> Inl e
          | Inr centre \<Rightarrow> compute_elos elo centre)"
proof -
  have n: "names_iter env (pla_names (results self)) = []"
    using assms by (simp add: pla_names_empty)
  have a: "print_player_info env self = (Some ValueError, self)"
    by (simp add: print_player_info_def n)
  have b: "print_game_results env self = (Some ValueError, py_print ''Player information:'' self)"
    by (simp add: print_game_results_def print_player_info_def n)
  have c: "build_result_matrix env self = Inr []"
    by (simp add: build_result_matrix_def n)
  have d: "print_result_matrix env self = (Some ValueError, self)"
    by (simp add: print_result_matrix_def c py_max_def)
  have e: "estimate_elo elo env self =
         (case make_center_elos_prior elo [] (elo_prior self) of
            Inl e \<Rightarrow> Inl e
          | Inr centre \<Rightarrow> compute_elos elo centre)"
    by (simp add: estimate_elo_def n split: sum.splits)
  from a b c d e show ?thesis by blast
qed

text \<open>At a concrete input: a new object.\<close>

theorem C9_empty_table_reports_raise_witness:
  "results (init 0) = Map.empty
   \<and> names_iter fixture_env {} = []
   \<and> print_game_results fixture_env (init 0) = (Some ValueError, py_print ''Player information:'' (init 0))
   \<and> print_result_matrix fixture_env (init 0) = (Some ValueError, init 0)
   \<and> build_result_matrix fixture_env (init 0) = Inr []
   \<and> estimate_elo fixture_elo fixture_env (init 0) = Inr 0"
proof -
  have r: "results (init 0) = Map.empty" by (simp add: init_def)
  have n: "names_iter fixture_env {} = []" by (simp add: fixture_env_sel)
  note t = C9_empty_table_reports_raise [OF r n, of fixture_elo]
  from t have a: "print_game_results fixture_env (init 0)
      = (Some ValueError, py_print ''Player information:'' (init 0))" by blast
  from t have b: "print_result_matrix fixture_env (init 0) = (Some ValueError, init 0)" by blast
  from t have c: "build_result_matrix fixture_env (init 0) = Inr []" by blast
  from t have "estimate_elo fixture_elo fixture_env (init 0) =
         (case make_center_elos_prior fixture_elo [] (elo_prior (init 0)) of
            Inl e \<Rightarrow> Inl e
          | Inr centre \<Rightarrow> compute_elos fixture_elo centre)" by blast
  then have d: "estimate_elo fixture_elo fixture_env (init 0) = Inr 0"
    by (simp add: fixture_elo_def)
  from r n a b c d show ?thesis by blast
qed

text \<open>
  The claim as stated (empty or trivial output, no crash) fails: after the only input
  directory turned out to be missing, printing the results raises.
\<close>

theorem C9_all_paths_failed_counterexample:
  "fst (add_games fixture_env ''missing'' False (init 0)) = None
   \<and> results (snd (add_games fixture_env ''missing'' False (init 0))) (Some ''Alice'', Some ''Bob'') = None
   \<and> fst (print_game_results fixture_env (snd (add_games fixture_env ''missing'' False (init 0))))
       = Some ValueError
   \<and> fst (print_result_matrix fixture_env (snd (add_games fixture_env ''missing'' False (init 0))))
       = Some ValueError"
proof -
  let ?s = "snd (add_games fixture_env ''missing'' False (init 0))"
  have ok: "fst (add_games fixture_env ''missing'' False (init 0)) = None" by code_simp
  have r: "results ?s = Map.empty"
    by (simp add: add_games_def add_game_file_names_def add_new_games_to_result_dict_def
          fixture_env_sel init_def py_print_def Let_def)
  have none: "results ?s (Some ''Alice'', Some ''Bob'') = None" by (simp add: r)
  have n: "names_iter fixture_env (pla_names (results ?s)) = []"
    by (simp add: r pla_names_empty fixture_env_sel)
  have a: "fst (print_game_results fixture_env ?s) = Some ValueError"
    by (simp add: print_game_results_def print_player_info_def n)
  have b: "fst (print_result_matrix fixture_env ?s) = Some ValueError"
    by (simp add: print_result_matrix_def build_result_matrix_def n py_max_def)
  from ok none a b show ?thesis by blast
qed

end
